theory Spec2Isabelle
  imports Complex_Main
begin

section \<open>Cards and the hand evaluator (class BlackjackGame)\<close>

text \<open>
  A card is the object \<^verbatim>\<open>{rank, suit, value}\<close> that \<^verbatim>\<open>Deck.shuffle\<close> and the
  card parsers build. The field \<^verbatim>\<open>value\<close> is called \<open>card_value\<close> here.
\<close>

datatype suit = Spades | Hearts | Diamonds | Clubs

record card =
  rank :: string
  suit :: suit
  card_value :: int

text \<open>The first loop of \<^verbatim>\<open>calculateHandValue\<close>: every Ace counts 11 and is tallied.\<close>

fun sumCards :: "card list \<Rightarrow> int \<Rightarrow> nat \<Rightarrow> int \<times> nat" where
  "sumCards [] v aces = (v, aces)"
| "sumCards (c # cs) v aces =
     (if rank c = ''A'' then sumCards cs (v + 11) (Suc aces)
      else sumCards cs (v + card_value c) aces)"

text \<open>The second loop: \<^verbatim>\<open>while (value > 21 && aces > 0) { value -= 10; aces--; }\<close>.\<close>

fun adjustAces :: "int \<Rightarrow> nat \<Rightarrow> int \<times> nat" where
  "adjustAces v 0 = (v, 0)"
| "adjustAces v (Suc a) = (if v > 21 then adjustAces (v - 10) a else (v, Suc a))"

text \<open>The result object \<^verbatim>\<open>{ value, isSoft }\<close> is the pair \<open>(value, isSoft)\<close>.\<close>

definition calculateHandValue :: "card list \<Rightarrow> int \<times> bool" where
  "calculateHandValue cards =
     (case sumCards cards 0 0 of (v0, a0) \<Rightarrow>
        (case adjustAces v0 a0 of (v, aces) \<Rightarrow> (v, aces > 0 \<and> v \<le> 21)))"

definition handValue :: "card list \<Rightarrow> int" where
  "handValue cards = fst (calculateHandValue cards)"

definition handSoft :: "card list \<Rightarrow> bool" where
  "handSoft cards = snd (calculateHandValue cards)"

definition isBlackjack :: "card list \<Rightarrow> bool" where
  "isBlackjack cards \<longleftrightarrow> length cards = 2 \<and> handValue cards = 21"

definition canSplit :: "card list \<Rightarrow> bool" where
  "canSplit cards \<longleftrightarrow> length cards = 2 \<and> card_value (cards ! 0) = card_value (cards ! 1)"

definition canDouble :: "card list \<Rightarrow> bool" where
  "canDouble cards \<longleftrightarrow> length cards = 2"

definition isBust :: "card list \<Rightarrow> bool" where
  "isBust cards \<longleftrightarrow> handValue cards > 21"

subsection \<open>Ranks and their blackjack values (Deck.getCardValue)\<close>

text \<open>
  \<^verbatim>\<open>parseInt\<close> on a string: leading white space is skipped, a sign is read, a
  \<^verbatim>\<open>0x\<close> prefix selects radix 16, and the longest run of digits is converted.
  \<open>None\<close> is NaN.
\<close>

definition isWhiteSpace :: "char \<Rightarrow> bool" where
  "isWhiteSpace c \<longleftrightarrow> of_char c \<in> {9, 10, 11, 12, 13, 32, 160 :: nat}"

definition digitValue :: "char \<Rightarrow> nat option" where
  "digitValue c =
     (let n = (of_char c :: nat) in
      if 48 \<le> n \<and> n \<le> 57 then Some (n - 48)
      else if 97 \<le> n \<and> n \<le> 122 then Some (n - 87)
      else if 65 \<le> n \<and> n \<le> 90 then Some (n - 55)
      else None)"

fun readDigits :: "nat \<Rightarrow> string \<Rightarrow> nat option \<Rightarrow> nat option" where
  "readDigits radix [] acc = acc"
| "readDigits radix (c # cs) acc =
     (case digitValue c of
        None \<Rightarrow> acc
      | Some d \<Rightarrow>
          if d < radix
          then readDigits radix cs (Some ((case acc of None \<Rightarrow> 0 | Some a \<Rightarrow> a) * radix + d))
          else acc)"

definition parseInt :: "string \<Rightarrow> int option" where
  "parseInt str =
     (let s = dropWhile isWhiteSpace str;
          neg = (s \<noteq> [] \<and> hd s = CHR ''-'');
          s1 = (if s \<noteq> [] \<and> (hd s = CHR ''-'' \<or> hd s = CHR ''+'') then tl s else s);
          hex = (take 2 s1 = ''0x'' \<or> take 2 s1 = ''0X'');
          s2 = (if hex then drop 2 s1 else s1)
      in map_option (\<lambda>n. if neg then - int n else int n)
           (readDigits (if hex then 16 else 10) s2 None))"

definition getCardValue :: "string \<Rightarrow> int option" where
  "getCardValue r =
     (if r = ''A'' then Some 11
      else if r \<in> set [''J'', ''Q'', ''K''] then Some 10
      else parseInt r)"

definition ranks :: "string list" where
  "ranks = [''A'', ''2'', ''3'', ''4''] @ [''5'', ''6'', ''7''] @ [''8'', ''9'', ''10''] @
           [''J'', ''Q'', ''K'']"

definition suits :: "suit list" where
  "suits = [Spades, Hearts, Diamonds, Clubs]"

text \<open>A card as the shoe holds it: a rank of the deck with that rank's value.\<close>

definition deckCard :: "card \<Rightarrow> bool" where
  "deckCard c \<longleftrightarrow> rank c \<in> set ranks \<and> getCardValue (rank c) = Some (card_value c)"

text \<open>
  The hard total of a hand counts every Ace as 1; \<open>aceCount\<close> is the number of Aces.
  The two are used to describe what \<^verbatim>\<open>calculateHandValue\<close> computes.
\<close>

fun hardTotal :: "card list \<Rightarrow> int" where
  "hardTotal [] = 0"
| "hardTotal (c # cs) = (if rank c = ''A'' then 1 else card_value c) + hardTotal cs"

fun aceCount :: "card list \<Rightarrow> nat" where
  "aceCount [] = 0"
| "aceCount (c # cs) = (if rank c = ''A'' then 1 else 0) + aceCount cs"

section \<open>Card counting (class CardCounter)\<close>

text \<open>
  The point table of a counting system, as the object literal of \<^verbatim>\<open>getCardValues\<close>
  gives it for the thirteen ranks, Ace last. A key that is absent reads as
  \<^verbatim>\<open>undefined\<close>, which \<^verbatim>\<open>updateCount\<close> turns into 0.
\<close>

definition pointTable :: "int list \<Rightarrow> (string \<rightharpoonup> int)" where
  "pointTable ws =
     map_of (zip ([''2'', ''3'', ''4'', ''5''] @ [''6'', ''7'', ''8''] @ [''9'', ''10''] @
                  [''J'', ''Q'', ''K'', ''A'']) ws)"

definition hiLo :: "string \<rightharpoonup> int" where
  "hiLo = pointTable [1, 1, 1, 1, 1, 0, 0, 0, -1, -1, -1, -1, -1]"

definition getCardValues :: "string \<Rightarrow> (string \<rightharpoonup> int) option \<Rightarrow> (string \<rightharpoonup> int)" where
  "getCardValues system customValues =
     (if system = ''Custom'' \<and> customValues \<noteq> None
      then (case customValues of Some custom \<Rightarrow> custom | None \<Rightarrow> hiLo)
      else if system = ''Hi-Lo'' then hiLo
      else if system = ''Hi-Opt I'' then pointTable [0, 1, 1, 1, 1, 0, 0, 0, -1, -1, -1, -1, 0]
      else if system = ''Hi-Opt II'' then pointTable [1, 1, 2, 2, 1, 1, 0, 0, -2, -2, -2, -2, 0]
      else if system = ''Omega II'' then pointTable [1, 1, 2, 2, 2, 1, 0, -1, -2, -2, -2, -2, 0]
      else if system = ''KO (Knockout)'' then pointTable [1, 1, 1, 1, 1, 1, 0, 0, -1, -1, -1, -1, -1]
      else if system = ''Ace-Five'' then pointTable [0, 0, 0, 1, 0, 0, 0, 0, 0, 0, 0, 0, -1]
      else hiLo)"

record counter =
  countingSystem :: string
  runningCount :: int
  cardValues :: "string \<rightharpoonup> int"

definition newCardCounter :: "string \<Rightarrow> counter" where
  "newCardCounter system =
     \<lparr>countingSystem = system, runningCount = 0, cardValues = getCardValues system None\<rparr>"

definition updateCount :: "counter \<Rightarrow> card \<Rightarrow> counter" where
  "updateCount k c =
     k\<lparr>runningCount := runningCount k + (case cardValues k (rank c) of None \<Rightarrow> 0 | Some v \<Rightarrow> v)\<rparr>"

definition reset :: "counter \<Rightarrow> counter" where
  "reset k = k\<lparr>runningCount := 0\<rparr>"

text \<open>
  \<^verbatim>\<open>getTrueCount\<close> and \<^verbatim>\<open>getCountRange\<close>; the quotient is taken in the rationals
  and \<^verbatim>\<open>Math.round\<close> rounds a half upwards.
\<close>

definition getTrueCount :: "counter \<Rightarrow> nat \<Rightarrow> nat \<Rightarrow> rat" where
  "getTrueCount k remainingCards nDecks =
     (let remainingDecks = of_nat remainingCards / 52 in
      if remainingDecks \<le> 0 then 0 else of_int (runningCount k) / remainingDecks)"

definition mathRound :: "rat \<Rightarrow> int" where
  "mathRound x = \<lfloor>x + 1 / 2\<rfloor>"

definition getCountRange :: "counter \<Rightarrow> nat \<Rightarrow> nat \<Rightarrow> int" where
  "getCountRange k remainingCards nDecks = mathRound (getTrueCount k remainingCards nDecks)"

section \<open>The shoe (class Deck)\<close>

text \<open>
  \<^verbatim>\<open>Math.random\<close> is the only input from outside: the model reads it from a fixed
  sequence of outcomes, \<open>outcomes r n\<close> being what the \<open>n\<close>-th call returns, already
  scaled to a natural number. \<^verbatim>\<open>Math.floor(Math.random() * (i + 1))\<close> is that number
  modulo \<open>i + 1\<close>, so every index from 0 to \<open>i\<close> can come out.
\<close>

record random_source =
  outcomes :: "nat \<Rightarrow> nat"
  consumed :: nat

definition randomIndex :: "random_source \<Rightarrow> nat \<Rightarrow> nat \<times> random_source" where
  "randomIndex r bound = (outcomes r (consumed r) mod bound, r\<lparr>consumed := Suc (consumed r)\<rparr>)"

record deck =
  numDecks :: nat
  cards :: "card list"
  usedCards :: "card list"
  penetration :: rat
  penetrationThreshold :: rat

text \<open>
  The three nested loops of \<^verbatim>\<open>shuffle\<close> that fill the shoe, in push order. Each of
  the thirteen ranks has a numeric value (lemma \<open>getCardValue_ranks\<close> below), so
  \<open>the\<close> is never applied to NaN.
\<close>

definition makeCard :: "suit \<Rightarrow> string \<Rightarrow> card" where
  "makeCard s r = \<lparr>rank = r, suit = s, card_value = the (getCardValue r)\<rparr>"

definition oneDeck :: "card list" where
  "oneDeck = concat (map (\<lambda>s. map (makeCard s) ranks) suits)"

definition freshCards :: "nat \<Rightarrow> card list" where
  "freshCards n = concat (replicate n oneDeck)"

text \<open>
  The Fisher-Yates loop \<^verbatim>\<open>for (i = length - 1; i > 0; i--)\<close>, swapping positions
  \<open>i\<close> and \<open>j\<close>.
\<close>

fun fisherYates :: "nat \<Rightarrow> card list \<Rightarrow> random_source \<Rightarrow> card list \<times> random_source" where
  "fisherYates 0 xs r = (xs, r)"
| "fisherYates (Suc i) xs r =
     (case randomIndex r (Suc i + 1) of (j, r') \<Rightarrow>
        fisherYates i (xs[Suc i := xs ! j, j := xs ! Suc i]) r')"

definition shuffle ::
  "deck \<Rightarrow> counter option \<Rightarrow> random_source \<Rightarrow> deck \<times> counter option \<times> random_source" where
  "shuffle d k r =
     (let fresh = freshCards (numDecks d) in
      case fisherYates (length fresh - 1) fresh r of (shuffled, r') \<Rightarrow>
        (d\<lparr>cards := shuffled, usedCards := [], penetration := 0\<rparr>, map_option reset k, r'))"

text \<open>The constructor \<^verbatim>\<open>new Deck(numDecks)\<close>; it shuffles without a counter.\<close>

definition newDeck :: "nat \<Rightarrow> random_source \<Rightarrow> deck \<times> random_source" where
  "newDeck n r =
     (case shuffle \<lparr>numDecks = n, cards = [], usedCards = [], penetration = 0,
                    penetrationThreshold = 75\<rparr> None r
      of (d, _, r') \<Rightarrow> (d, r'))"

text \<open>
  Errors are values. A shoe of zero decks is still empty after the shuffle, so that
  \<^verbatim>\<open>pop()\<close> gives \<^verbatim>\<open>undefined\<close>; the first read of that card's rank (by the counter,
  or by the hand evaluator of the caller, which every caller runs on the card next)
  raises a TypeError. The model raises it at the deal.
\<close>

datatype error = TypeError

text \<open>
  \<^verbatim>\<open>dealCard(counter)\<close>: the card comes off the end of the array. The penetration is
  the quotient \<^verbatim>\<open>(usedCount / totalCards) * 100\<close>, here in the rationals; a shoe
  that holds cards has at least one deck, so the divisor is not 0.
\<close>

definition dealCard ::
  "deck \<Rightarrow> counter option \<Rightarrow> random_source \<Rightarrow>
     error + (card \<times> deck \<times> counter option \<times> random_source)" where
  "dealCard d k r =
     (case (if length (cards d) = 0 then shuffle d k r else (d, k, r)) of (d1, k1, r1) \<Rightarrow>
        if cards d1 = [] then Inl TypeError
        else
          let c = last (cards d1);
              used = usedCards d1 @ [c];
              k2 = map_option (\<lambda>k. updateCount k c) k1;
              totalCards = numDecks d1 * 52;
              usedCount = length used
          in Inr (c,
                  d1\<lparr>cards := butlast (cards d1), usedCards := used,
                     penetration := (of_nat usedCount / of_nat totalCards) * 100\<rparr>,
                  k2, r1))"

definition shouldReshuffle :: "deck \<Rightarrow> bool" where
  "shouldReshuffle d \<longleftrightarrow> penetration d \<ge> penetrationThreshold d \<and> length (cards d) < 52"

definition setPenetration :: "deck \<Rightarrow> rat \<Rightarrow> deck" where
  "setPenetration d percentage = d\<lparr>penetrationThreshold := percentage\<rparr>"

definition getRemainingCards :: "deck \<Rightarrow> nat" where
  "getRemainingCards d = length (cards d)"

text \<open>\<open>k\<close> calls of \<^verbatim>\<open>dealCard\<close> in a row, with the cards they return.\<close>

fun dealCards ::
  "nat \<Rightarrow> deck \<Rightarrow> counter option \<Rightarrow> random_source \<Rightarrow>
     error + (card list \<times> deck \<times> counter option \<times> random_source)" where
  "dealCards 0 d k r = Inr ([], d, k, r)"
| "dealCards (Suc n) d k r =
     (case dealCard d k r of
        Inl e \<Rightarrow> Inl e
      | Inr (c, d', k', r') \<Rightarrow>
         (case dealCards n d' k' r' of
            Inl e \<Rightarrow> Inl e
          | Inr (cs, d'', k'', r'') \<Rightarrow> Inr (c # cs, d'', k'', r'')))"

section \<open>Strategy tables (class Strategy)\<close>

text \<open>
  A table is a JavaScript object of objects of action letters; its keys are strings,
  and a number used as a key is converted by \<^verbatim>\<open>toString\<close> (\<^verbatim>\<open>NaN\<close> for NaN).
  Only own properties are modelled.
\<close>

type_synonym table = "string \<rightharpoonup> (string \<rightharpoonup> string)"

fun natToString :: "nat \<Rightarrow> string" where
  "natToString n =
     (if n < 10 then [char_of (48 + n)]
      else natToString (n div 10) @ [char_of (48 + n mod 10)])"

declare natToString.simps [simp del]

definition numberToString :: "int \<Rightarrow> string" where
  "numberToString n = (if n < 0 then CHR ''-'' # natToString (nat (- n)) else natToString (nat n))"

definition numberKey :: "int option \<Rightarrow> string" where
  "numberKey n = (case n of None \<Rightarrow> ''NaN'' | Some k \<Rightarrow> numberToString k)"

text \<open>\<^verbatim>\<open>str.split(',')\<close>, \<^verbatim>\<open>str.includes(',')\<close> and \<^verbatim>\<open>str.startsWith('S')\<close>.\<close>

fun splitComma :: "string \<Rightarrow> string list" where
  "splitComma [] = [[]]"
| "splitComma (c # cs) =
     (if c = CHR '','' then [] # splitComma cs
      else (case splitComma cs of [] \<Rightarrow> [[c]] | p # ps \<Rightarrow> (c # p) # ps))"

definition includesComma :: "string \<Rightarrow> bool" where
  "includesComma s \<longleftrightarrow> CHR '','' \<in> set s"

definition startsWithS :: "string \<Rightarrow> bool" where
  "startsWithS s \<longleftrightarrow> take 1 s = ''S''"

record strategy =
  hard :: table
  soft :: table
  pairs :: table
  countBased :: bool
  hardByCount :: "string \<rightharpoonup> table"
  softByCount :: "string \<rightharpoonup> table"
  pairsByCount :: "string \<rightharpoonup> table"

text \<open>
  The chain \<^verbatim>\<open>t[k] && t[k][dealer]\<close>: the action when the row exists and the entry is
  truthy, that is, a non-empty string.
\<close>

definition cellOf :: "table \<Rightarrow> string \<Rightarrow> string \<Rightarrow> string option" where
  "cellOf t k dealer =
     (case t k of
        None \<Rightarrow> None
      | Some row \<Rightarrow> (case row dealer of None \<Rightarrow> None | Some a \<Rightarrow> if a = [] then None else Some a))"

definition countCellOf :: "(string \<rightharpoonup> table) \<Rightarrow> string \<Rightarrow> string \<Rightarrow> string \<Rightarrow> string option" where
  "countCellOf ts countKey k dealer = (case ts countKey of None \<Rightarrow> None | Some t \<Rightarrow> cellOf t k dealer)"

text \<open>\<^verbatim>\<open>if (action === 'D' && !canDouble) return 'H'; return action;\<close>\<close>

definition orHit :: "string \<Rightarrow> bool \<Rightarrow> string" where
  "orHit a canDbl = (if a = ''D'' \<and> \<not> canDbl then ''H'' else a)"

definition normDealer :: "string \<Rightarrow> string" where
  "normDealer dealerCard = (if dealerCard = ''A'' \<or> dealerCard = ''11'' then ''A'' else dealerCard)"

text \<open>The value of a pair label's first part, as \<^verbatim>\<open>getAction\<close> reads it.\<close>

definition pairValue :: "string \<Rightarrow> int option" where
  "pairValue c = (if c = ''A'' then Some 11 else if c \<in> set [''J'', ''Q'', ''K''] then Some 10 else parseInt c)"

definition samePair :: "string \<Rightarrow> string option" where
  "samePair playerTotal =
     (case splitComma playerTotal of
        a # b # _ \<Rightarrow> if a = b then Some a else None
      | _ \<Rightarrow> None)"

definition inRange :: "int option \<Rightarrow> int \<Rightarrow> int \<Rightarrow> bool" where
  "inRange n lo hi = (case n of None \<Rightarrow> False | Some k \<Rightarrow> lo \<le> k \<and> k \<le> hi)"

text \<open>The count-specific part of \<^verbatim>\<open>getAction\<close>; \<open>None\<close> when it falls through.\<close>

definition countAction :: "strategy \<Rightarrow> string \<Rightarrow> string \<Rightarrow> bool \<Rightarrow> bool \<Rightarrow> int \<Rightarrow> string option" where
  "countAction s playerTotal dealer canDbl canSpl count =
     (let countKey = numberToString count;
          pairHit =
            (if canSpl \<and> includesComma playerTotal
             then (case samePair playerTotal of
                     None \<Rightarrow> None
                   | Some c \<Rightarrow> countCellOf (pairsByCount s) countKey (numberKey (pairValue c)) dealer)
             else None)
      in case pairHit of
           Some a \<Rightarrow> Some (orHit a canDbl)
         | None \<Rightarrow>
             if startsWithS playerTotal
             then map_option (\<lambda>a. orHit a canDbl)
                    (countCellOf (softByCount s) countKey (numberKey (parseInt (drop 1 playerTotal))) dealer)
             else (case parseInt playerTotal of
                     None \<Rightarrow> None
                   | Some tot \<Rightarrow>
                       map_option (\<lambda>a. orHit a canDbl)
                         (countCellOf (hardByCount s) countKey (numberToString tot) dealer)))"

text \<open>The base part of \<^verbatim>\<open>getAction\<close>, with its default actions.\<close>

definition baseAction :: "strategy \<Rightarrow> string \<Rightarrow> string \<Rightarrow> bool \<Rightarrow> bool \<Rightarrow> string" where
  "baseAction s playerTotal dealer canDbl canSpl =
     (let pairHit =
            (if canSpl \<and> includesComma playerTotal
             then (case samePair playerTotal of
                     None \<Rightarrow> None
                   | Some c \<Rightarrow>
                       if inRange (pairValue c) 2 11
                       then cellOf (pairs s) (numberKey (pairValue c)) dealer else None)
             else None);
          softTotal = parseInt (drop 1 playerTotal);
          softHit =
            (if startsWithS playerTotal \<and> inRange softTotal 13 21
             then cellOf (soft s) (numberKey softTotal) dealer else None);
          hardTotal = parseInt playerTotal;
          hardHit =
            (if inRange hardTotal 5 21 then cellOf (hard s) (numberKey hardTotal) dealer else None)
      in case pairHit of
           Some a \<Rightarrow> orHit a canDbl
         | None \<Rightarrow>
            (case softHit of
               Some a \<Rightarrow> orHit a canDbl
             | None \<Rightarrow>
                 if \<not> startsWithS playerTotal \<and> \<not> includesComma playerTotal
                 then (case hardHit of
                         Some a \<Rightarrow> orHit a canDbl
                       | None \<Rightarrow>
                          (case hardTotal of
                             Some t \<Rightarrow> if t < 17 then ''H'' else ''S''
                           | None \<Rightarrow> ''S''))
                 else if startsWithS playerTotal
                 then (case softTotal of
                         Some t \<Rightarrow> if t < 19 then ''H'' else ''S''
                       | None \<Rightarrow> ''S'')
                 else ''S''))"

definition getAction :: "strategy \<Rightarrow> string \<Rightarrow> string \<Rightarrow> bool \<Rightarrow> bool \<Rightarrow> int \<Rightarrow> string" where
  "getAction s playerTotal dealerCard canDbl canSpl count =
     (let dealer = normDealer dealerCard in
      case (if countBased s \<and> count \<noteq> 0
            then countAction s playerTotal dealer canDbl canSpl count else None) of
        Some a \<Rightarrow> a
      | None \<Rightarrow> baseAction s playerTotal dealer canDbl canSpl)"

subsection \<open>Building and editing tables\<close>

definition dealerKeys :: "string list" where
  "dealerKeys = [''2'', ''3'', ''4'', ''5''] @ [''6'', ''7'', ''8''] @ [''9'', ''10'', ''A'']"

definition uniformRow :: "string \<Rightarrow> (string \<rightharpoonup> string)" where
  "uniformRow a = map_of (map (\<lambda>d. (d, a)) dealerKeys)"

definition fillRows :: "nat list \<Rightarrow> string \<Rightarrow> table \<Rightarrow> table" where
  "fillRows totals a t = fold (\<lambda>i t'. t'(natToString i \<mapsto> uniformRow a)) totals t"

text \<open>\<^verbatim>\<open>initializeEmpty\<close> overwrites the rows 5 to 21, 13 to 21 and 2 to 11.\<close>

definition initializeEmpty :: "strategy \<Rightarrow> strategy" where
  "initializeEmpty s =
     s\<lparr>hard := fillRows [5..<22] ''S'' (hard s),
       soft := fillRows [13..<22] ''S'' (soft s),
       pairs := fillRows [2..<12] ''H'' (pairs s)\<rparr>"

definition newStrategy :: strategy where
  "newStrategy =
     initializeEmpty \<lparr>hard = Map.empty, soft = Map.empty, pairs = Map.empty, countBased = False,
                      hardByCount = Map.empty, softByCount = Map.empty, pairsByCount = Map.empty\<rparr>"

text \<open>
  \<^verbatim>\<open>t[k][dealer] = action\<close>: assigning into a row that does not exist raises a
  TypeError.
\<close>

definition setCell :: "table \<Rightarrow> string \<Rightarrow> string \<Rightarrow> string \<Rightarrow> error + table" where
  "setCell t k dealer action =
     (case t k of None \<Rightarrow> Inl TypeError | Some row \<Rightarrow> Inr (t(k \<mapsto> row(dealer \<mapsto> action))))"

definition setAction :: "strategy \<Rightarrow> string \<Rightarrow> string \<Rightarrow> string \<Rightarrow> error + strategy" where
  "setAction s playerTotal dealerCard action =
     (let dealer = normDealer dealerCard in
      if startsWithS playerTotal
      then (let tot = parseInt (drop 1 playerTotal) in
            if inRange tot 13 21
            then map_sum id (\<lambda>t. s\<lparr>soft := t\<rparr>) (setCell (soft s) (numberKey tot) dealer action)
            else Inr s)
      else if includesComma playerTotal
      then (case samePair playerTotal of
              None \<Rightarrow> Inr s
            | Some c \<Rightarrow>
                let v = (if c = ''A'' then Some 11 else parseInt c) in
                if inRange v 2 11
                then map_sum id (\<lambda>t. s\<lparr>pairs := t\<rparr>) (setCell (pairs s) (numberKey v) dealer action)
                else Inr s)
      else (let tot = parseInt playerTotal in
            if inRange tot 5 21
            then map_sum id (\<lambda>t. s\<lparr>hard := t\<rparr>) (setCell (hard s) (numberKey tot) dealer action)
            else Inr s))"

text \<open>\<^verbatim>\<open>setCountAction\<close> creates the count level and the row when they are missing.\<close>

definition setCountCell ::
  "(string \<rightharpoonup> table) \<Rightarrow> string \<Rightarrow> string \<Rightarrow> string \<Rightarrow> string \<Rightarrow> (string \<rightharpoonup> table)" where
  "setCountCell ts countKey k dealer action =
     (let t = (case ts countKey of None \<Rightarrow> Map.empty | Some t' \<Rightarrow> t');
          row = (case t k of None \<Rightarrow> Map.empty | Some row' \<Rightarrow> row')
      in ts(countKey \<mapsto> t(k \<mapsto> row(dealer \<mapsto> action))))"

definition setCountAction :: "strategy \<Rightarrow> int \<Rightarrow> string \<Rightarrow> string \<Rightarrow> string \<Rightarrow> strategy" where
  "setCountAction s0 count playerTotal dealerCard action =
     (let s = s0\<lparr>countBased := True\<rparr>;
          countKey = numberToString count;
          dealer = normDealer dealerCard
      in if startsWithS playerTotal
         then s\<lparr>softByCount :=
                  setCountCell (softByCount s) countKey (numberKey (parseInt (drop 1 playerTotal)))
                    dealer action\<rparr>
         else if includesComma playerTotal
         then (case samePair playerTotal of
                 None \<Rightarrow> s
               | Some c \<Rightarrow>
                   s\<lparr>pairsByCount :=
                       setCountCell (pairsByCount s) countKey
                         (numberKey (if c = ''A'' then Some 11 else parseInt c)) dealer action\<rparr>)
         else s\<lparr>hardByCount :=
                  setCountCell (hardByCount s) countKey (numberKey (parseInt playerTotal))
                    dealer action\<rparr>)"

definition enableCountBased :: "strategy \<Rightarrow> bool \<Rightarrow> strategy" where
  "enableCountBased s enabled = s\<lparr>countBased := enabled\<rparr>"

text \<open>
  A row of \<^verbatim>\<open>loadBasicStrategy\<close>, written as its ten action letters for the dealer
  cards 2 to 10 and Ace.
\<close>

definition actionRow :: "string \<Rightarrow> (string \<rightharpoonup> string)" where
  "actionRow letters = map_of (zip dealerKeys (map (\<lambda>c. [c]) letters))"

definition tableOf :: "(string \<times> string) list \<Rightarrow> table" where
  "tableOf rows = map_of (map (\<lambda>(k, letters). (k, actionRow letters)) rows)"

definition hardStrategy :: table where
  "hardStrategy = tableOf
     [(''5'', ''HHHHHHHHHH''), (''6'', ''HHHHHHHHHH''), (''7'', ''HHHHHHHHHH''),
      (''8'', ''HHHHHHHHHH''), (''9'', ''HDDDDHHHHH''), (''10'', ''DDDDDDDDHH''),
      (''11'', ''DDDDDDDDDD''), (''12'', ''HHSSSHHHHH''), (''13'', ''SSSSSHHHHH''),
      (''14'', ''SSSSSHHHHH''), (''15'', ''SSSSSHHHHH''), (''16'', ''SSSSSHHHHH''),
      (''17'', ''SSSSSSSSSS''), (''18'', ''SSSSSSSSSS''), (''19'', ''SSSSSSSSSS''),
      (''20'', ''SSSSSSSSSS''), (''21'', ''SSSSSSSSSS'')]"

definition softStrategy :: table where
  "softStrategy = tableOf
     [(''13'', ''HHHDDHHHHH''), (''14'', ''HHDDDHHHHH''), (''15'', ''HHDDDHHHHH''),
      (''16'', ''HHDDDHHHHH''), (''17'', ''HDDDDHHHHH''), (''18'', ''SDDDDSSHHH''),
      (''19'', ''SSSSSSSSSS''), (''20'', ''SSSSSSSSSS''), (''21'', ''SSSSSSSSSS'')]"

definition pairsStrategy :: table where
  "pairsStrategy = tableOf
     [(''2'', ''PPPPPPHHHH''), (''3'', ''PPPPPPHHHH''), (''4'', ''HHHPPHHHHH''),
      (''5'', ''DDDDDDDDHH''), (''6'', ''PPPPPHHHHH''), (''7'', ''PPPPPPHHHH''),
      (''8'', ''PPPPPPPPPP''), (''9'', ''PPPPPSPPSS''), (''10'', ''SSSSSSSSSS''),
      (''11'', ''PPPPPPPPPP'')]"

definition loadBasicStrategy :: "strategy \<Rightarrow> strategy" where
  "loadBasicStrategy s = s\<lparr>hard := hardStrategy, soft := softStrategy, pairs := pairsStrategy\<rparr>"

subsection \<open>Export and import\<close>

text \<open>
  The exchanged payload. \<^verbatim>\<open>importData\<close> accepts an object with any of the fields
  missing, so each field is optional. \<^verbatim>\<open>JSON.parse(JSON.stringify(obj))\<close> builds a
  fresh object equal to \<open>obj\<close> as a tree of string keys and string leaves; values
  have no identity here, so the copy of a table is the table.
\<close>

record strategy_data =
  data_countBased :: "bool option"
  data_hard :: "table option"
  data_soft :: "table option"
  data_pairs :: "table option"
  data_hardByCount :: "(string \<rightharpoonup> table) option"
  data_softByCount :: "(string \<rightharpoonup> table) option"
  data_pairsByCount :: "(string \<rightharpoonup> table) option"

definition clone :: "'a \<Rightarrow> 'a" where
  "clone obj = obj"

definition exportData :: "strategy \<Rightarrow> strategy_data" where
  "exportData s =
     \<lparr>data_countBased = Some (countBased s),
      data_hard = Some (clone (hard s)),
      data_soft = Some (clone (soft s)),
      data_pairs = Some (clone (pairs s)),
      data_hardByCount = Some (clone (hardByCount s)),
      data_softByCount = Some (clone (softByCount s)),
      data_pairsByCount = Some (clone (pairsByCount s))\<rparr>"

definition cloneOr :: "'a option \<Rightarrow> 'a \<Rightarrow> 'a" where
  "cloneOr obj fallback = (case obj of Some x \<Rightarrow> clone x | None \<Rightarrow> fallback)"

definition importData :: "strategy \<Rightarrow> strategy_data \<Rightarrow> strategy" where
  "importData s0 d =
     (let s1 = initializeEmpty s0;
          s2 = (case data_hard d of Some t \<Rightarrow> s1\<lparr>hard := clone t\<rparr> | None \<Rightarrow> s1);
          s3 = (case data_soft d of Some t \<Rightarrow> s2\<lparr>soft := clone t\<rparr> | None \<Rightarrow> s2);
          s4 = (case data_pairs d of Some t \<Rightarrow> s3\<lparr>pairs := clone t\<rparr> | None \<Rightarrow> s3);
          s5 = s4\<lparr>hardByCount := cloneOr (data_hardByCount d) Map.empty,
                  softByCount := cloneOr (data_softByCount d) Map.empty,
                  pairsByCount := cloneOr (data_pairsByCount d) Map.empty\<rparr>
      in enableCountBased s5 (case data_countBased d of Some b \<Rightarrow> b | None \<Rightarrow> False))"

section \<open>The game engine (class BlackjackGame)\<close>

record rules =
  dealerStandsOn :: string
  doubleAfterSplit :: bool
  allowResplit :: bool
  resplitAces :: bool
  blackjackPays :: string

record game =
  deck :: deck
  rules :: rules
  counter :: "counter option"

text \<open>\<^verbatim>\<open>this.deck.dealCard(this.counter)\<close>, returning the card and the game after it.\<close>

definition deal :: "game \<Rightarrow> random_source \<Rightarrow> error + (card \<times> game \<times> random_source)" where
  "deal g r =
     (case dealCard (deck g) (counter g) r of
        Inl e \<Rightarrow> Inl e
      | Inr (c, d, k, r') \<Rightarrow> Inr (c, g\<lparr>deck := d, counter := k\<rparr>, r'))"

subsection \<open>The dealer\<close>

text \<open>
  The value at which the dealer stands, as \<^verbatim>\<open>playDealer\<close> computes it in each pass.
\<close>

definition standValue :: "rules \<Rightarrow> int \<Rightarrow> bool \<Rightarrow> int" where
  "standValue rl v isSoft =
     (if dealerStandsOn rl = ''17s'' then 17
      else if isSoft \<and> v = 17 then 18 else 17)"

text \<open>
  \<^verbatim>\<open>playDealer\<close>: the loop \<^verbatim>\<open>while (true)\<close> may not end, so the model counts its
  passes; \<open>None\<close> says that the passes allowed were used up before the loop was left.
\<close>

fun playDealer ::
  "nat \<Rightarrow> game \<Rightarrow> random_source \<Rightarrow> card list \<Rightarrow>
     (error + (card list \<times> game \<times> random_source)) option" where
  "playDealer 0 g r hand = None"
| "playDealer (Suc n) g r hand =
     (case calculateHandValue hand of (v, isSoft) \<Rightarrow>
        if v > 21 then Some (Inr (hand, g, r))
        else if v \<ge> standValue (rules g) v isSoft then Some (Inr (hand, g, r))
        else (case deal g r of
                Inl e \<Rightarrow> Some (Inl e)
              | Inr (c, g', r') \<Rightarrow> playDealer n g' r' (hand @ [c])))"

text \<open>
  The rule of the dealer in the words of the specification: the dealer draws at a
  total below 17, and at a soft 17 when soft 17 is hit, which is every setting of
  \<^verbatim>\<open>dealerStandsOn\<close> but \<^verbatim>\<open>'17s'\<close>.
\<close>

definition dealerMustHit :: "rules \<Rightarrow> card list \<Rightarrow> bool" where
  "dealerMustHit rl hand \<longleftrightarrow>
     handValue hand < 17 \<or> (handValue hand = 17 \<and> handSoft hand \<and> dealerStandsOn rl \<noteq> ''17s'')"

text \<open>A shoe of at least one deck whose drawable cards are all cards of the deck.\<close>

definition deckOK :: "deck \<Rightarrow> bool" where
  "deckOK d \<longleftrightarrow> 0 < numDecks d \<and> list_all deckCard (cards d)"

subsection \<open>The player\<close>

text \<open>
  A hand of the worklist, \<^verbatim>\<open>{ cards, bet, result }\<close>. Where two kinds of object have
  a field of the same name, the later one carries a prefix here: \<^verbatim>\<open>cards\<close> of a hand
  is \<open>hand_cards\<close>.
\<close>

record hand =
  hand_cards :: "card list"
  bet :: rat
  result :: "string option"

text \<open>The locals of one pass of the inner loop of \<^verbatim>\<open>playHand\<close>.\<close>

definition isPair :: "hand \<Rightarrow> bool" where
  "isPair h \<longleftrightarrow> length (hand_cards h) = 2 \<and> canSplit (hand_cards h)"

definition isAcePair :: "hand \<Rightarrow> bool" where
  "isAcePair h \<longleftrightarrow> isPair h \<and> rank (hand_cards h ! 0) = ''A''"

definition hasSplit :: "hand list \<Rightarrow> bool" where
  "hasSplit hands \<longleftrightarrow> length hands > 1"

definition canResplit :: "rules \<Rightarrow> hand list \<Rightarrow> hand \<Rightarrow> bool" where
  "canResplit rl hands h =
     (if hasSplit hands then (if isAcePair h then resplitAces rl else allowResplit rl) else True)"

definition canSplitThisHand :: "rules \<Rightarrow> hand list \<Rightarrow> hand \<Rightarrow> bool" where
  "canSplitThisHand rl hands h \<longleftrightarrow> isPair h \<and> canResplit rl hands h"

definition canDoubleThisHand :: "rules \<Rightarrow> bool \<Rightarrow> nat \<Rightarrow> hand \<Rightarrow> bool" where
  "canDoubleThisHand rl canDbl i h \<longleftrightarrow>
     length (hand_cards h) = 2 \<and> ((i = 0 \<and> canDbl) \<or> (i > 0 \<and> doubleAfterSplit rl))"

definition playerTotalLabel :: "rules \<Rightarrow> hand list \<Rightarrow> hand \<Rightarrow> string" where
  "playerTotalLabel rl hands h =
     (case calculateHandValue (hand_cards h) of (v, isSoft) \<Rightarrow>
        if isPair h \<and> (\<not> hasSplit hands \<or> canResplit rl hands h)
        then (let first = hand_cards h ! 0;
                  normalized = (if rank first = ''A'' then ''A''
                                else if card_value first = 10 then ''10''
                                else numberToString (card_value first))
              in normalized @ '','' @ normalized)
        else if isSoft then ''S'' @ numberToString v else numberToString v)"

definition dealerCardLabel :: "card \<Rightarrow> string" where
  "dealerCardLabel c = (if card_value c = 11 then ''A'' else numberToString (card_value c))"

definition currentCount :: "game \<Rightarrow> int" where
  "currentCount g =
     (case counter g of
        Some k \<Rightarrow> getCountRange k (getRemainingCards (deck g)) (numDecks (deck g))
      | None \<Rightarrow> 0)"

text \<open>The action the strategy gives for hand \<open>i\<close> of the worklist.\<close>

definition chosenAction :: "game \<Rightarrow> strategy \<Rightarrow> card \<Rightarrow> bool \<Rightarrow> hand list \<Rightarrow> nat \<Rightarrow> string" where
  "chosenAction g st dealerUpCard canDbl hands i =
     (let h = hands ! i in
      getAction st (playerTotalLabel (rules g) hands h) (dealerCardLabel dealerUpCard)
        (canDoubleThisHand (rules g) canDbl i h) (canSplitThisHand (rules g) hands h)
        (currentCount g))"

text \<open>
  A hit: \<^verbatim>\<open>hand.cards.push(dealCard()); if (isBust) { hand.result = 'lose'; break; }\<close>.
  The flag returned says whether the inner loop goes on with the same hand.
\<close>

definition hitHand ::
  "game \<Rightarrow> random_source \<Rightarrow> hand list \<Rightarrow> rat \<Rightarrow> nat \<Rightarrow>
     error + (bool \<times> hand list \<times> rat \<times> game \<times> random_source)" where
  "hitHand g r hands totalBet i =
     (case deal g r of
        Inl e \<Rightarrow> Inl e
      | Inr (c, g', r') \<Rightarrow>
          let h = hands ! i;
              cs = hand_cards h @ [c]
          in if isBust cs
             then Inr (False, hands[i := h\<lparr>hand_cards := cs, result := Some ''lose''\<rparr>], totalBet, g', r')
             else Inr (True, hands[i := h\<lparr>hand_cards := cs\<rparr>], totalBet, g', r'))"

text \<open>One pass of the body of the inner loop, for hand \<open>i < length hands\<close>.\<close>

definition playHandPass ::
  "game \<Rightarrow> random_source \<Rightarrow> strategy \<Rightarrow> card \<Rightarrow> bool \<Rightarrow> hand list \<Rightarrow> rat \<Rightarrow> nat \<Rightarrow>
     error + (bool \<times> hand list \<times> rat \<times> game \<times> random_source)" where
  "playHandPass g r st dealerUpCard canDbl hands totalBet i =
     (let h = hands ! i;
          action = chosenAction g st dealerUpCard canDbl hands i
      in if action = ''H'' then hitHand g r hands totalBet i
         else if action = ''S'' then Inr (False, hands, totalBet, g, r)
         else if action = ''D'' then
           (if canDoubleThisHand (rules g) canDbl i h
            then (case deal g r of
                    Inl e \<Rightarrow> Inl e
                  | Inr (c, g', r') \<Rightarrow>
                      Inr (False,
                           hands[i := h\<lparr>hand_cards := hand_cards h @ [c], bet := bet h * 2\<rparr>],
                           totalBet + (bet h * 2) / 2, g', r'))
            else hitHand g r hands totalBet i)
         else if action = ''P'' then
           (if canSplitThisHand (rules g) hands h
            then (case deal g r of
                    Inl e \<Rightarrow> Inl e
                  | Inr (c1, g1, r1) \<Rightarrow>
                     (case deal g1 r1 of
                        Inl e \<Rightarrow> Inl e
                      | Inr (c2, g2, r2) \<Rightarrow>
                          let kept = butlast (hand_cards h);
                              newHand = \<lparr>hand_cards = [last (hand_cards h), c1], bet = bet h,
                                         result = None\<rparr>
                          in Inr (True,
                                  hands[i := h\<lparr>hand_cards := kept @ [c2]\<rparr>] @ [newHand],
                                  totalBet + bet h, g2, r2)))
            else hitHand g r hands totalBet i)
         else Inr (False, hands, totalBet, g, r))"

text \<open>
  The two nested loops of \<^verbatim>\<open>playHand\<close> as one recursion over their passes: the
  worklist index \<open>i\<close> moves on when the inner loop is left. A split may follow a
  split without bound, so the passes are counted as for the dealer.
\<close>

fun playHandLoop ::
  "nat \<Rightarrow> game \<Rightarrow> random_source \<Rightarrow> strategy \<Rightarrow> card \<Rightarrow> bool \<Rightarrow> hand list \<Rightarrow> rat \<Rightarrow> nat \<Rightarrow>
     (error + (hand list \<times> rat \<times> game \<times> random_source)) option" where
  "playHandLoop 0 g r st dealerUpCard canDbl hands totalBet i = None"
| "playHandLoop (Suc n) g r st dealerUpCard canDbl hands totalBet i =
     (if \<not> i < length hands then Some (Inr (hands, totalBet, g, r))
      else if isBust (hand_cards (hands ! i)) \<or> isBlackjack (hand_cards (hands ! i))
      then playHandLoop n g r st dealerUpCard canDbl hands totalBet (i + 1)
      else (case playHandPass g r st dealerUpCard canDbl hands totalBet i of
              Inl e \<Rightarrow> Some (Inl e)
            | Inr (again, hands', totalBet', g', r') \<Rightarrow>
                playHandLoop n g' r' st dealerUpCard canDbl hands' totalBet'
                  (if again then i else i + 1)))"

text \<open>The parameter \<^verbatim>\<open>canSplit\<close> of \<^verbatim>\<open>playHand\<close> is not read by its body.\<close>

definition playHand ::
  "nat \<Rightarrow> game \<Rightarrow> random_source \<Rightarrow> card list \<Rightarrow> card \<Rightarrow> strategy \<Rightarrow> bool \<Rightarrow> bool \<Rightarrow>
     (error + (hand list \<times> rat \<times> game \<times> random_source)) option" where
  "playHand fuel g r initialCards dealerUpCard st canDbl canSpl =
     playHandLoop fuel g r st dealerUpCard canDbl
       [\<lparr>hand_cards = initialCards, bet = 1, result = None\<rparr>] 1 0"

text \<open>
  The permission to split in the words of the specification: the hand at index 0 may
  always split a pair; a later hand may split a pair of Aces when Aces may be resplit,
  and another pair when resplitting is allowed.
\<close>

definition specSplitPermitted :: "rules \<Rightarrow> hand list \<Rightarrow> nat \<Rightarrow> bool" where
  "specSplitPermitted rl hands i \<longleftrightarrow>
     isPair (hands ! i) \<and>
     (i = 0 \<or> (if isAcePair (hands ! i) then resplitAces rl else allowResplit rl))"

subsection \<open>A complete game\<close>

record decision =
  decision_playerTotal :: "int \<times> bool"
  decision_dealerCard :: card
  decision_action :: string

text \<open>
  The object \<^verbatim>\<open>playGame\<close> returns; the early returns on a blackjack carry neither
  \<^verbatim>\<open>hands\<close> nor \<^verbatim>\<open>initialDecision\<close>. Its fields \<^verbatim>\<open>result\<close> and \<^verbatim>\<open>bet\<close> are
  \<open>outcome\<close> and \<open>wagered\<close> here, a hand having fields of the same names.
\<close>

record game_result =
  outcome :: string
  winnings :: rat
  wagered :: rat
  playerCards :: "card list"
  dealerCards :: "card list"
  hands :: "hand list option"
  initialDecision :: "decision option"

definition getInitialAction :: "card list \<Rightarrow> card \<Rightarrow> hand list \<Rightarrow> string" where
  "getInitialAction pCards dealerUpCard finalHands =
     (if length finalHands > 1 then ''P''
      else if length finalHands > 0 \<and>
              length (hand_cards (finalHands ! 0)) = 3 \<and> length pCards = 2 then ''D''
      else if length finalHands > 0 \<and>
              length (hand_cards (finalHands ! 0)) > length pCards then ''H''
      else ''S'')"

text \<open>The settling loop \<^verbatim>\<open>for (let hand of hands)\<close> of \<^verbatim>\<open>playGame\<close>.\<close>

definition settleHand :: "rat \<Rightarrow> int \<Rightarrow> hand \<Rightarrow> rat" where
  "settleHand betSize dealerValue h =
     (if result h = Some ''lose'' then - (betSize * bet h)
      else let playerValue = handValue (hand_cards h) in
        if playerValue > 21 then - (betSize * bet h)
        else if dealerValue > 21 then betSize * bet h
        else if playerValue > dealerValue then betSize * bet h
        else if playerValue < dealerValue then - (betSize * bet h)
        else 0)"

definition settle :: "rat \<Rightarrow> int \<Rightarrow> hand list \<Rightarrow> rat" where
  "settle betSize dealerValue hs = fold (\<lambda>h total. total + settleHand betSize dealerValue h) hs 0"

definition payout :: "rules \<Rightarrow> rat" where
  "payout rl =
     (if blackjackPays rl = ''3:2'' then 3 / 2
      else if blackjackPays rl = ''6:5'' then 6 / 5 else 1)"

text \<open>The four cards dealt at the start, player first.\<close>

definition dealFour ::
  "game \<Rightarrow> random_source \<Rightarrow> error + (card list \<times> card list \<times> game \<times> random_source)" where
  "dealFour g r =
     (case deal g r of Inl e \<Rightarrow> Inl e | Inr (p1, g1, r1) \<Rightarrow>
      case deal g1 r1 of Inl e \<Rightarrow> Inl e | Inr (p2, g2, r2) \<Rightarrow>
      case deal g2 r2 of Inl e \<Rightarrow> Inl e | Inr (d1, g3, r3) \<Rightarrow>
      case deal g3 r3 of Inl e \<Rightarrow> Inl e | Inr (d2, g4, r4) \<Rightarrow>
        Inr ([p1, p2], [d1, d2], g4, r4))"

definition reshuffleIfDue :: "game \<Rightarrow> random_source \<Rightarrow> game \<times> random_source" where
  "reshuffleIfDue g r =
     (if shouldReshuffle (deck g)
      then (case shuffle (deck g) (counter g) r of (d, k, r') \<Rightarrow> (g\<lparr>deck := d, counter := k\<rparr>, r'))
      else (g, r))"

definition playGame ::
  "nat \<Rightarrow> game \<Rightarrow> random_source \<Rightarrow> strategy \<Rightarrow> rat \<Rightarrow>
     (error + (game_result \<times> game \<times> random_source)) option" where
  "playGame fuel g0 r0 st betSize =
     (case reshuffleIfDue g0 r0 of (g1, r1) \<Rightarrow>
      case dealFour g1 r1 of
        Inl e \<Rightarrow> Some (Inl e)
      | Inr (pCards, dCards, g, r) \<Rightarrow>
          let dealerUpCard = dCards ! 0 in
          if isBlackjack pCards then
            (if isBlackjack dCards
             then Some (Inr (\<lparr>outcome = ''push'', winnings = 0, wagered = betSize,
                              playerCards = pCards, dealerCards = dCards, hands = None,
                              initialDecision = None\<rparr>, g, r))
             else Some (Inr (\<lparr>outcome = ''blackjack'', winnings = betSize * payout (rules g),
                              wagered = betSize, playerCards = pCards, dealerCards = dCards,
                              hands = None, initialDecision = None\<rparr>, g, r)))
          else if isBlackjack dCards
          then Some (Inr (\<lparr>outcome = ''lose'', winnings = - betSize, wagered = betSize,
                           playerCards = pCards, dealerCards = dCards, hands = None,
                           initialDecision = None\<rparr>, g, r))
          else
            (case playHand fuel g r pCards dealerUpCard st (doubleAfterSplit (rules g)) True of
               None \<Rightarrow> None
             | Some (Inl e) \<Rightarrow> Some (Inl e)
             | Some (Inr (hs, totalBet, g2, r2)) \<Rightarrow>
                (case playDealer fuel g2 r2 dCards of
                   None \<Rightarrow> None
                 | Some (Inl e) \<Rightarrow> Some (Inl e)
                 | Some (Inr (dealerFinal, g3, r3)) \<Rightarrow>
                     let totalWinnings = settle betSize (handValue dealerFinal) hs in
                     Some (Inr (\<lparr>outcome = (if totalWinnings > 0 then ''win''
                                             else if totalWinnings < 0 then ''lose'' else ''push''),
                                  winnings = totalWinnings,
                                  wagered = betSize * totalBet,
                                  playerCards = pCards,
                                  dealerCards = dealerFinal,
                                  hands = Some hs,
                                  initialDecision =
                                    Some \<lparr>decision_playerTotal = calculateHandValue pCards,
                                          decision_dealerCard = dealerUpCard,
                                          decision_action =
                                            getInitialAction pCards dealerUpCard hs\<rparr>\<rparr>,
                                g3, r3)))))"

section \<open>The simulator (class Simulator)\<close>

subsection \<open>Statistics per strategy cell\<close>

record cell =
  cell_playerTotal :: string
  cell_dealerCard :: string
  cell_action :: string
  cell_count :: int
  cell_hands :: nat
  cell_wins :: nat
  cell_losses :: nat
  cell_pushes :: nat
  cell_totalWinnings :: rat
  cell_totalBet :: rat

definition cellPlayerTotal :: "card list \<Rightarrow> string" where
  "cellPlayerTotal pCards =
     (if length pCards = 2 \<and> canSplit pCards
      then (let rank1 = rank (pCards ! 0); rank2 = rank (pCards ! 1) in
            if rank1 = rank2 then rank1 @ '','' @ rank2
            else dealerCardLabel (pCards ! 0) @ '','' @ dealerCardLabel (pCards ! 1))
      else (case calculateHandValue pCards of (v, isSoft) \<Rightarrow>
              if isSoft then ''S'' @ numberToString v else numberToString v))"

text \<open>
  The action \<^verbatim>\<open>trackCellStats\<close> files a game under: the one of
  \<^verbatim>\<open>initialDecision\<close>, otherwise \<^verbatim>\<open>'S'\<close>; the second guess is made only for an
  empty action.
\<close>

definition cellAction :: "game_result \<Rightarrow> string" where
  "cellAction gr =
     (let action = (case initialDecision gr of Some d \<Rightarrow> decision_action d | None \<Rightarrow> ''S'') in
      if action = [] then
        (case hands gr of
           None \<Rightarrow> action
         | Some hs \<Rightarrow>
             if length hs > 0 then
               (if length hs > 1 then ''P''
                else if length (hand_cards (hs ! 0)) = 3 \<and> length (playerCards gr) = 2 then ''D''
                else if length (hand_cards (hs ! 0)) > length (playerCards gr) then ''H''
                else action)
             else action)
      else action)"

definition cellKeyOf :: "game_result \<Rightarrow> int \<Rightarrow> string" where
  "cellKeyOf gr countCategory =
     cellPlayerTotal (playerCards gr) @ ''_'' @ dealerCardLabel (dealerCards gr ! 0) @ ''_'' @
       cellAction gr @ ''_'' @ numberToString countCategory"


subsection \<open>Batch simulation\<close>

text \<open>
  The aggregate of \<^verbatim>\<open>runSimulations\<close>; its list \<^verbatim>\<open>results\<close> of the first hundred
  games is \<open>samples\<close> here. A quotient whose divisor is 0 is NaN or infinite in the
  source and \<open>None\<close> here, as is \<^verbatim>\<open>returnRate\<close> before it is set. The statistics by
  count level, which no other field reads, and the progress callback are left out.
\<close>

record results =
  totalGames :: nat
  wins :: nat
  losses :: nat
  pushes :: nat
  blackjacks :: nat
  totalWinnings :: rat
  totalBet :: rat
  expectedValue :: "rat option"
  winRate :: "rat option"
  returnRate :: "rat option"
  samples :: "game_result list"
  cellStats :: "string \<rightharpoonup> cell"






definition CHUNK_SIZE :: nat where
  "CHUNK_SIZE = 10000"



subsection \<open>Testing a row of the strategy table\<close>

text \<open>\<^verbatim>\<open>str.trim()\<close> and \<^verbatim>\<open>str.toUpperCase()\<close>, the latter on the letters a to z.\<close>

definition trim :: "string \<Rightarrow> string" where
  "trim s = rev (dropWhile isWhiteSpace (rev (dropWhile isWhiteSpace s)))"

definition toUpperCase :: "string \<Rightarrow> string" where
  "toUpperCase s =
     map (\<lambda>c. let n = (of_char c :: nat) in if 97 \<le> n \<and> n \<le> 122 then char_of (n - 32) else c) s"

text \<open>
  The first part of \<^verbatim>\<open>testRowActions\<close>: the representative hand as a string and the
  flag \<^verbatim>\<open>canSplit\<close> (\<^verbatim>\<open>canDouble\<close> is true on every path).
\<close>

definition subtractNum :: "int option \<Rightarrow> int option \<Rightarrow> int option" where
  "subtractNum a b = (case (a, b) of (Some x, Some y) \<Rightarrow> Some (x - y) | _ \<Rightarrow> None)"

definition representativeHand :: "string \<Rightarrow> string \<times> bool" where
  "representativeHand playerTotal =
     (if startsWithS playerTotal
      then (''A,'' @ numberKey (subtractNum (parseInt (drop 1 playerTotal)) (Some 11)), False)
      else if includesComma playerTotal then (playerTotal, True)
      else (let hardValue = parseInt playerTotal in
            if inRange hardValue 10 20
            then (let card1 = map_option (\<lambda>hv. min 10 (hv - 5)) hardValue;
                      card2 = subtractNum hardValue card1
                  in (numberKey card1 @ '','' @ numberKey card2, False))
            else (let cardValue = map_option (\<lambda>hv. hv div 2) hardValue;
                      other = subtractNum hardValue cardValue
                  in (numberKey cardValue @ '','' @ numberKey other,
                      cardValue \<noteq> None \<and> cardValue = other))))"

text \<open>The actions valid for the row, in the order they are pushed.\<close>

definition validActions :: "string \<Rightarrow> bool \<Rightarrow> bool \<Rightarrow> string list" where
  "validActions playerTotal canDbl canSpl =
     [''H'', ''S''] @
     (if canDbl then
        (if startsWithS playerTotal then [''D'']
         else if includesComma playerTotal then
           (let pairVal = (if playerTotal = ''A,A'' then Some 11
                           else (case splitComma playerTotal of
                                   [] \<Rightarrow> None
                                 | part # _ \<Rightarrow> parseInt part))
            in if pairVal \<noteq> Some 11 then [''D''] else [])
         else (if inRange (parseInt playerTotal) 9 11 then [''D''] else []))
      else []) @
     (if canSpl then [''P''] else [])"

text \<open>
  The cards parsed from the representative hand. A part that is no number gets the
  value NaN, which makes the hand total NaN, so that the hand is no blackjack.
\<close>

definition parseRowCard :: "string \<Rightarrow> card option" where
  "parseRowCard str =
     (let c = toUpperCase (trim str) in
      if c = ''A'' then Some \<lparr>rank = ''A'', suit = Spades, card_value = 11\<rparr>
      else if c \<in> set [''J'', ''Q'', ''K''] \<or> c = ''10''
      then Some \<lparr>rank = c, suit = Spades, card_value = 10\<rparr>
      else map_option (\<lambda>v. \<lparr>rank = c, suit = Spades, card_value = v\<rparr>) (parseInt c))"

fun allCards :: "card option list \<Rightarrow> card list option" where
  "allCards [] = Some []"
| "allCards (None # cs) = None"
| "allCards (Some c # cs) = map_option ((#) c) (allCards cs)"

definition isInitialBlackjack :: "string \<Rightarrow> bool" where
  "isInitialBlackjack pCards =
     (case allCards (map parseRowCard (splitComma pCards)) of
        None \<Rightarrow> False
      | Some parsed \<Rightarrow> length parsed = 2 \<and> isBlackjack parsed)"

record row_cell =
  row_totalGames :: nat
  row_totalWinnings :: rat
  row_totalBet :: rat
  row_wins :: nat
  row_losses :: nat
  row_pushes :: nat
  row_expectedValue :: "rat option"

text \<open>
  What a call of \<^verbatim>\<open>testRowActions\<close> reads from outside. Each trial builds fresh
  shuffled shoes and plays one hand with the action forced
  (\<^verbatim>\<open>simulateHandWithAction\<close>); its returned \<^verbatim>\<open>result\<close>, \<^verbatim>\<open>winnings\<close> and \<^verbatim>\<open>bet\<close>
  are \<open>trial i dealer action\<close>. \<open>countMatches i dealer\<close> says whether the rounded true
  count of trial \<open>i\<close> equals the target, \<open>counting\<close> whether the page has counting
  enabled with a counting system chosen, and \<open>cancelCheck\<close>, when given, answers the
  \<open>n\<close>-th poll.
\<close>

record row_env =
  counting :: bool
  countMatches :: "nat \<Rightarrow> string \<Rightarrow> bool"
  trial :: "nat \<Rightarrow> string \<Rightarrow> string \<Rightarrow> string \<times> rat \<times> rat"
  cancelCheck :: "(nat \<Rightarrow> bool) option"

record row_state =
  row_results :: "string \<rightharpoonup> (string \<rightharpoonup> row_cell)"
  row_actions :: "string list"
  polls :: nat

definition shouldCancel :: "row_env \<Rightarrow> row_state \<Rightarrow> bool \<times> row_state" where
  "shouldCancel env st =
     (case cancelCheck env of
        None \<Rightarrow> (False, st)
      | Some check \<Rightarrow> (check (polls st), st\<lparr>polls := Suc (polls st)\<rparr>))"

definition emptyRowCell :: row_cell where
  "emptyRowCell =
     \<lparr>row_totalGames = 0, row_totalWinnings = 0, row_totalBet = 0, row_wins = 0, row_losses = 0,
      row_pushes = 0, row_expectedValue = None\<rparr>"

definition initialRowResults :: "string list \<Rightarrow> string list \<Rightarrow> (string \<rightharpoonup> (string \<rightharpoonup> row_cell))" where
  "initialRowResults dealers actions =
     fold (\<lambda>dealer rs. rs(dealer \<mapsto> map_of (map (\<lambda>a. (a, emptyRowCell)) actions))) dealers Map.empty"

text \<open>The tally of one trial in \<^verbatim>\<open>results[dealer][action]\<close>.\<close>

definition recordTrial :: "row_env \<Rightarrow> nat \<Rightarrow> string \<Rightarrow> string \<Rightarrow> row_state \<Rightarrow> error + row_state" where
  "recordTrial env i dealer action st =
     (case row_results st dealer of
        None \<Rightarrow> Inl TypeError
      | Some row \<Rightarrow>
         (case row action of
            None \<Rightarrow> Inl TypeError
          | Some c \<Rightarrow>
             (case trial env i dealer action of (res, won, wager) \<Rightarrow>
                let c1 = c\<lparr>row_totalGames := row_totalGames c + 1,
                           row_totalWinnings := row_totalWinnings c + won,
                           row_totalBet := row_totalBet c + wager\<rparr>;
                    c2 = (if res = ''win'' \<or> res = ''blackjack''
                          then c1\<lparr>row_wins := row_wins c1 + 1\<rparr>
                          else if res = ''lose'' then c1\<lparr>row_losses := row_losses c1 + 1\<rparr>
                          else c1\<lparr>row_pushes := row_pushes c1 + 1\<rparr>)
                in Inr (st\<lparr>row_results := (row_results st)(dealer \<mapsto> row(action \<mapsto> c2))\<rparr>))))"

text \<open>
  The three nested loops over trials, dealer cards and actions. The flag returned is
  true when a poll asked for cancellation, which leaves all loops at once.
\<close>

fun testActions ::
  "row_env \<Rightarrow> nat \<Rightarrow> string \<Rightarrow> string list \<Rightarrow> row_state \<Rightarrow> error + (bool \<times> row_state)" where
  "testActions env i dealer [] st = Inr (False, st)"
| "testActions env i dealer (a # as) st =
     (case shouldCancel env st of (stop, st1) \<Rightarrow>
        if stop then Inr (True, st1)
        else (case recordTrial env i dealer a st1 of
                Inl e \<Rightarrow> Inl e
              | Inr st2 \<Rightarrow> testActions env i dealer as st2))"

fun testDealers ::
  "row_env \<Rightarrow> bool \<Rightarrow> nat \<Rightarrow> string list \<Rightarrow> row_state \<Rightarrow> error + (bool \<times> row_state)" where
  "testDealers env filtered i [] st = Inr (False, st)"
| "testDealers env filtered i (dealer # ds) st =
     (case shouldCancel env st of (stop, st1) \<Rightarrow>
        if stop then Inr (True, st1)
        else if filtered \<and> \<not> countMatches env i dealer then testDealers env filtered i ds st1
        else (case testActions env i dealer (row_actions st1) st1 of
                Inl e \<Rightarrow> Inl e
              | Inr (stop', st2) \<Rightarrow>
                  if stop' then Inr (True, st2) else testDealers env filtered i ds st2))"

fun testTrials ::
  "row_env \<Rightarrow> bool \<Rightarrow> string \<Rightarrow> string list \<Rightarrow> nat \<Rightarrow> nat \<Rightarrow> row_state \<Rightarrow>
     error + (bool \<times> row_state)" where
  "testTrials env filtered pCards dealers 0 i st = Inr (False, st)"
| "testTrials env filtered pCards dealers (Suc todo) i st =
     (case shouldCancel env st of (stop, st1) \<Rightarrow>
        if stop then Inr (True, st1)
        else
          let st2 = (if isInitialBlackjack pCards then st1\<lparr>row_actions := [''S'']\<rparr> else st1) in
          case testDealers env filtered i dealers st2 of
            Inl e \<Rightarrow> Inl e
          | Inr (stop', st3) \<Rightarrow>
              if stop' then Inr (True, st3)
              else testTrials env filtered pCards dealers todo (i + 1) st3)"

text \<open>
  \<^verbatim>\<open>finalize\<close>: the expected value of every cell of the current actions, and the
  summary of them.
\<close>

definition cellEV :: "row_cell \<Rightarrow> rat" where
  "cellEV c = (if row_totalGames c > 0 then row_totalWinnings c / of_nat (row_totalGames c) else 0)"

fun finalizeActions ::
  "string \<Rightarrow> string list \<Rightarrow> (string \<rightharpoonup> (string \<rightharpoonup> row_cell)) \<times> (string \<rightharpoonup> rat) \<Rightarrow>
     error + ((string \<rightharpoonup> (string \<rightharpoonup> row_cell)) \<times> (string \<rightharpoonup> rat))" where
  "finalizeActions dealer [] (rs, m) = Inr (rs, m)"
| "finalizeActions dealer (a # as) (rs, m) =
     (case rs dealer of
        None \<Rightarrow> Inl TypeError
      | Some row \<Rightarrow>
         (case row a of
            None \<Rightarrow> Inl TypeError
          | Some c \<Rightarrow>
              finalizeActions dealer as
                (rs(dealer \<mapsto> row(a \<mapsto> c\<lparr>row_expectedValue := Some (cellEV c)\<rparr>)),
                 m(a \<mapsto> cellEV c))))"

fun finalizeDealers ::
  "string list \<Rightarrow> string list \<Rightarrow>
     (string \<rightharpoonup> (string \<rightharpoonup> row_cell)) \<times> (string \<rightharpoonup> (string \<rightharpoonup> rat)) \<Rightarrow>
     error + ((string \<rightharpoonup> (string \<rightharpoonup> row_cell)) \<times> (string \<rightharpoonup> (string \<rightharpoonup> rat)))" where
  "finalizeDealers [] actions (rs, sm) = Inr (rs, sm)"
| "finalizeDealers (dealer # ds) actions (rs, sm) =
     (case finalizeActions dealer actions (rs, Map.empty) of
        Inl e \<Rightarrow> Inl e
      | Inr (rs', m) \<Rightarrow> finalizeDealers ds actions (rs', sm(dealer \<mapsto> m)))"

record row_outcome =
  outcome_results :: "string \<rightharpoonup> (string \<rightharpoonup> row_cell)"
  summary :: "string \<rightharpoonup> (string \<rightharpoonup> rat)"
  cancelled :: bool

definition finalizeRow :: "string list \<Rightarrow> row_state \<Rightarrow> bool \<Rightarrow> error + row_outcome" where
  "finalizeRow dealers st stop =
     (case finalizeDealers dealers (row_actions st) (row_results st, Map.empty) of
        Inl e \<Rightarrow> Inl e
      | Inr (rs, sm) \<Rightarrow> Inr \<lparr>outcome_results = rs, summary = sm, cancelled = stop\<rparr>)"

function processRowChunk ::
  "row_env \<Rightarrow> bool \<Rightarrow> string \<Rightarrow> string list \<Rightarrow> nat \<Rightarrow> nat \<Rightarrow> row_state \<Rightarrow> error + row_outcome" where
  "processRowChunk env filtered pCards dealers numSimulations currentIndex st =
     (let endIndex = min (currentIndex + CHUNK_SIZE) numSimulations in
      case testTrials env filtered pCards dealers (endIndex - currentIndex) currentIndex st of
        Inl e \<Rightarrow> Inl e
      | Inr (stop, st1) \<Rightarrow>
          if stop then finalizeRow dealers st1 True
          else (case shouldCancel env st1 of (stop', st2) \<Rightarrow>
                  if stop' then finalizeRow dealers st2 True
                  else if endIndex \<ge> numSimulations then finalizeRow dealers st2 False
                  else processRowChunk env filtered pCards dealers numSimulations endIndex st2))"
  by pat_completeness auto

termination
  by (relation "measure (\<lambda>(env, filtered, pCards, dealers, numSimulations, currentIndex, st).
        numSimulations - currentIndex)") (auto simp: CHUNK_SIZE_def min_def split: if_splits)

text \<open>
  \<^verbatim>\<open>testRowActions(playerTotal, dealers, countLevel, numSimulations, betSize)\<close>; the
  bet size reaches the trials only. The value is what the promise resolves with, or
  the error that rejects it.
\<close>

definition testRowActions ::
  "row_env \<Rightarrow> string \<Rightarrow> string list \<Rightarrow> int option \<Rightarrow> nat \<Rightarrow> rat \<Rightarrow> error + row_outcome" where
  "testRowActions env playerTotal dealers countLevel numSimulations betSize =
     (case representativeHand playerTotal of (pCards, canSpl) \<Rightarrow>
        let actions = validActions playerTotal True canSpl in
        processRowChunk env (counting env \<and> countLevel \<noteq> None) pCards dealers numSimulations 0
          \<lparr>row_results = initialRowResults dealers actions, row_actions = actions, polls = 0\<rparr>)"

text \<open>
  What keeps the tally of the row \<^verbatim>\<open>'16'\<close> against the dealer card \<^verbatim>\<open>'10'\<close> well
  formed: the actions are Hit and Stand, and both have a cell.
\<close>

definition rowReady :: "row_state \<Rightarrow> bool" where
  "rowReady st \<longleftrightarrow>
     row_actions st = [''H'', ''S''] \<and>
     (case row_results st ''10'' of
        None \<Rightarrow> False
      | Some row \<Rightarrow> row ''H'' \<noteq> None \<and> row ''S'' \<noteq> None)"

subsection \<open>Analysing a situation\<close>

definition parseCard :: "string \<Rightarrow> card option" where
  "parseCard str =
     (let cardStr = toUpperCase (trim str) in
      if cardStr = ''A'' \<or> cardStr = ''ACE''
      then Some \<lparr>rank = ''A'', suit = Spades, card_value = 11\<rparr>
      else if cardStr \<in> set [''J'', ''Q'', ''K''] \<or> cardStr = ''10''
      then Some \<lparr>rank = cardStr, suit = Spades, card_value = 10\<rparr>
      else (case parseInt cardStr of
              None \<Rightarrow> None
            | Some num \<Rightarrow>
                if 2 \<le> num \<and> num \<le> 9
                then Some \<lparr>rank = numberToString num, suit = Spades, card_value = num\<rparr>
                else None))"

text \<open>
  \<^verbatim>\<open>parsedPlayerCards\<close>: the parts of the input that parse; the others are filtered
  out.
\<close>

definition parsePlayerCards :: "string \<Rightarrow> card list" where
  "parsePlayerCards pCards = List.map_filter parseCard (splitComma pCards)"

record situation =
  situation_playerCards :: "card list"
  situation_playerTotal :: string
  situation_dealerCard :: card
  situation_canDouble :: bool
  situation_canSplit :: bool
  situation_actions :: "string list"

text \<open>
  \<^verbatim>\<open>analyzeSituation\<close> up to the point where the trials start: \<open>Inl msg\<close> is the returned
  object \<^verbatim>\<open>{ error: msg }\<close>, \<open>Inr\<close> the situation that is then simulated once for each
  of its actions.
\<close>

definition analyzeSituation :: "string \<Rightarrow> string \<Rightarrow> string + situation" where
  "analyzeSituation pCards dealerCard =
     (let parsedPlayerCards = parsePlayerCards pCards in
      case parseCard dealerCard of
        None \<Rightarrow> Inl ''Invalid card input''
      | Some parsedDealerCard \<Rightarrow>
          if length parsedPlayerCards = 0 then Inl ''Invalid card input''
          else
            (case calculateHandValue parsedPlayerCards of (v, isSoft) \<Rightarrow>
               let canSpl = (length parsedPlayerCards = 2 \<and>
                             card_value (parsedPlayerCards ! 0) = card_value (parsedPlayerCards ! 1));
                   canDbl = (length parsedPlayerCards = 2);
                   label = (\<lambda>c. if card_value c = 11 then ''A''
                                 else if card_value c = 10 then ''10''
                                 else numberToString (card_value c));
                   playerTotal =
                     (if canSpl
                      then label (parsedPlayerCards ! 0) @ '','' @ label (parsedPlayerCards ! 1)
                      else if isSoft then ''S'' @ numberToString v else numberToString v)
               in Inr \<lparr>situation_playerCards = parsedPlayerCards,
                        situation_playerTotal = playerTotal,
                        situation_dealerCard = parsedDealerCard,
                        situation_canDouble = canDbl,
                        situation_canSplit = canSpl,
                        situation_actions =
                          [''H'', ''S''] @ (if canDbl then [''D''] else []) @
                          (if canSpl then [''P''] else [])\<rparr>))"

section \<open>Properties of the hand evaluator\<close>

lemma getCardValue_ranks:
  "getCardValue ''A'' = Some 11" "getCardValue ''2'' = Some 2" "getCardValue ''3'' = Some 3"
  "getCardValue ''4'' = Some 4" "getCardValue ''5'' = Some 5" "getCardValue ''6'' = Some 6"
  "getCardValue ''7'' = Some 7" "getCardValue ''8'' = Some 8" "getCardValue ''9'' = Some 9"
  "getCardValue ''10'' = Some 10" "getCardValue ''J'' = Some 10" "getCardValue ''Q'' = Some 10"
  "getCardValue ''K'' = Some 10"
  by (simp_all add: getCardValue_def parseInt_def isWhiteSpace_def digitValue_def)

lemma deckCard_cases:
  assumes "deckCard c"
  shows "(rank c = ''A'' \<and> card_value c = 11) \<or>
         (rank c \<noteq> ''A'' \<and> 2 \<le> card_value c \<and> card_value c \<le> 10)"
  using assms unfolding deckCard_def ranks_def
  by (auto simp: getCardValue_ranks)

lemma sumCards_eq:
  "sumCards cs v a = (v + hardTotal cs + 10 * int (aceCount cs), a + aceCount cs)"
  by (induction cs arbitrary: v a) auto

lemma adjustAces_props:
  "adjustAces v a = (v', a') \<Longrightarrow>
     a' \<le> a \<and> v' = v - 10 * int (a - a') \<and> (a' > 0 \<longrightarrow> v' \<le> 21) \<and> (a' < a \<longrightarrow> v' > 11)"
proof (induction v a arbitrary: v' a' rule: adjustAces.induct)
  case (1 v)
  then show ?case by simp
next
  case (2 v a)
  show ?case
  proof (cases "v > 21")
    case True
    with 2 show ?thesis by (auto simp: Suc_diff_le)
  next
    case False
    with 2 show ?thesis by auto
  qed
qed

lemma handValue_ge_hardTotal: "hardTotal cs \<le> handValue cs"
proof -
  obtain v a where va: "adjustAces (hardTotal cs + 10 * int (aceCount cs)) (aceCount cs) = (v, a)"
    by (cases "adjustAces (hardTotal cs + 10 * int (aceCount cs)) (aceCount cs)")
  from adjustAces_props[OF va] have "a \<le> aceCount cs" "v = hardTotal cs + 10 * int (aceCount cs) - 10 * int (aceCount cs - a)"
    by auto
  then have "v = hardTotal cs + 10 * int a" by (simp add: of_nat_diff)
  then show ?thesis using va by (simp add: handValue_def calculateHandValue_def sumCards_eq)
qed


lemma hardTotal_append: "hardTotal (xs @ ys) = hardTotal xs + hardTotal ys"
  by (induction xs) auto






lemma deckCard_ten:
  assumes "deckCard c"
  shows "card_value c = 10 \<longleftrightarrow> rank c \<in> {''10'', ''J'', ''Q'', ''K''}"
proof -
  from assms have r: "rank c \<in> set ranks" and v: "getCardValue (rank c) = Some (card_value c)"
    by (simp_all add: deckCard_def)
  from r consider "rank c = ''A''" | "rank c = ''2''" | "rank c = ''3''" | "rank c = ''4''"
    | "rank c = ''5''" | "rank c = ''6''" | "rank c = ''7''" | "rank c = ''8''" | "rank c = ''9''"
    | "rank c = ''10''" | "rank c = ''J''" | "rank c = ''Q''" | "rank c = ''K''"
    unfolding ranks_def by auto
  then show ?thesis
    using v by cases (simp_all add: getCardValue_ranks)
qed

lemma handValue_two:
  assumes "deckCard x" "deckCard y"
  shows "handValue [x, y] = 21 \<longleftrightarrow>
           (rank x = ''A'' \<and> card_value y = 10) \<or> (card_value x = 10 \<and> rank y = ''A'')"
proof -
  note cx = deckCard_cases[OF assms(1)] and cy = deckCard_cases[OF assms(2)]
  show ?thesis
  proof (cases "rank x = ''A''")
    case ax: True
    show ?thesis
    proof (cases "rank y = ''A''")
      case True
      with ax cx cy show ?thesis by (simp add: handValue_def calculateHandValue_def)
    next
      case False
      with ax cx cy show ?thesis by (auto simp: handValue_def calculateHandValue_def)
    qed
  next
    case nx: False
    show ?thesis
    proof (cases "rank y = ''A''")
      case True
      with nx cx cy show ?thesis by (auto simp: handValue_def calculateHandValue_def)
    next
      case False
      with nx cx cy show ?thesis by (simp add: handValue_def calculateHandValue_def)
    qed
  qed
qed


text \<open>
  Claim C3, amended: for cards of the deck (one of the thirteen ranks, carrying the
  value of that rank), \<^verbatim>\<open>isBlackjack\<close> holds exactly for the hands of two cards of
  which one is an Ace and the other a 10, Jack, Queen or King.
\<close>

theorem isBlackjack_iff:
  assumes "\<forall>c \<in> set cs. deckCard c"
  shows "isBlackjack cs \<longleftrightarrow>
          (\<exists>a t. (cs = [a, t] \<or> cs = [t, a]) \<and> rank a = ''A'' \<and>
                  rank t \<in> {''10'', ''J'', ''Q'', ''K''})"
proof (cases "\<exists>x y. cs = [x, y]")
  case True
  then obtain x y where cs: "cs = [x, y]" by blast
  with assms have d: "deckCard x" "deckCard y" by auto
  have "isBlackjack cs \<longleftrightarrow> (rank x = ''A'' \<and> card_value y = 10) \<or> (card_value x = 10 \<and> rank y = ''A'')"
    using handValue_two[OF d] by (simp add: isBlackjack_def cs)
  also have "\<dots> \<longleftrightarrow> (rank x = ''A'' \<and> rank y \<in> {''10'', ''J'', ''Q'', ''K''}) \<or>
                     (rank x \<in> {''10'', ''J'', ''Q'', ''K''} \<and> rank y = ''A'')"
    by (simp only: deckCard_ten[OF d(1)] deckCard_ten[OF d(2)])
  also have "\<dots> \<longleftrightarrow> (\<exists>a t. (cs = [a, t] \<or> cs = [t, a]) \<and> rank a = ''A'' \<and>
                  rank t \<in> {''10'', ''J'', ''Q'', ''K''})"
    unfolding cs by blast
  finally show ?thesis .
next
  case False
  have "length cs \<noteq> 2"
  proof
    assume "length cs = 2"
    then obtain x y where "cs = [x, y]"
      by (cases cs; cases "tl cs") auto
    with False show False by blast
  qed
  with False show ?thesis unfolding isBlackjack_def by auto
qed

theorem isBlackjack_iff_witness:
  "deckCard \<lparr>rank = ''A'', suit = Spades, card_value = 11\<rparr> \<and>
   deckCard \<lparr>rank = ''K'', suit = Hearts, card_value = 10\<rparr> \<and>
   isBlackjack [\<lparr>rank = ''A'', suit = Spades, card_value = 11\<rparr>,
                \<lparr>rank = ''K'', suit = Hearts, card_value = 10\<rparr>]"
proof -
  let ?a = "\<lparr>rank = ''A'', suit = Spades, card_value = 11\<rparr>"
  let ?k = "\<lparr>rank = ''K'', suit = Hearts, card_value = 10\<rparr>"
  have d: "deckCard ?a" "deckCard ?k"
    by (simp_all add: deckCard_def ranks_def getCardValue_ranks)
  then have h: "\<forall>c \<in> set [?a, ?k]. deckCard c" by simp
  have "\<exists>a t. ([?a, ?k] = [a, t] \<or> [?a, ?k] = [t, a]) \<and> rank a = ''A'' \<and>
          rank t \<in> {''10'', ''J'', ''Q'', ''K''}"
    by (rule exI[of _ ?a], rule exI[of _ ?k]) simp
  with isBlackjack_iff[OF h] d show ?thesis by blast
qed

text \<open>
  The claim C3 as stated, for every list of cards, fails: \<^verbatim>\<open>isBlackjack\<close> tests the
  length and the total only. For the row \<^verbatim>\<open>'21'\<close> of the strategy table
  \<^verbatim>\<open>testRowActions\<close> builds the hand \<^verbatim>\<open>10,11\<close>, whose second card has the rank
  \<^verbatim>\<open>'11'\<close> and the value 11; the hand counts as a blackjack and holds no Ace.
\<close>

theorem isBlackjack_without_ace:
  "representativeHand ''21'' = (''10,11'', False) \<and>
   allCards (map parseRowCard (splitComma ''10,11'')) =
     Some [\<lparr>rank = ''10'', suit = Spades, card_value = 10\<rparr>,
           \<lparr>rank = ''11'', suit = Spades, card_value = 11\<rparr>] \<and>
   isBlackjack [\<lparr>rank = ''10'', suit = Spades, card_value = 10\<rparr>,
                \<lparr>rank = ''11'', suit = Spades, card_value = 11\<rparr>] \<and>
   rank \<lparr>rank = ''10'', suit = Spades, card_value = 10\<rparr> \<noteq> ''A'' \<and>
   rank \<lparr>rank = ''11'', suit = Spades, card_value = 11\<rparr> \<noteq> ''A''"
  by code_simp

section \<open>Properties of the shoe\<close>

lemma length_fisherYates: "length (fst (fisherYates i xs r)) = length xs"
  by (induction i xs r rule: fisherYates.induct) (auto simp: randomIndex_def split: prod.splits)

lemma length_oneDeck: "length oneDeck = 52"
  by (simp add: oneDeck_def suits_def ranks_def)

lemma length_freshCards: "length (freshCards n) = n * 52"
  by (induction n) (auto simp: freshCards_def length_oneDeck)

lemma shuffle_props:
  assumes "shuffle d c r = (d0, c0, r0)"
  shows "length (cards d0) = numDecks d * 52" "usedCards d0 = []" "penetration d0 = 0"
    "numDecks d0 = numDecks d" "penetrationThreshold d0 = penetrationThreshold d"
    "c0 = map_option reset c"
  using assms length_fisherYates[of "length (freshCards (numDecks d)) - 1" "freshCards (numDecks d)" r]
  by (auto simp: shuffle_def Let_def length_freshCards split: prod.splits)






section \<open>Properties of the dealer\<close>

lemma set_fisherYates:
  "i < length xs \<or> i = 0 \<Longrightarrow> set (fst (fisherYates i xs r)) \<subseteq> set xs"
proof (induction i xs r rule: fisherYates.induct)
  case (1 xs r)
  then show ?case by simp
next
  case (2 i xs r)
  obtain j r' where j: "randomIndex r (Suc i + 1) = (j, r')" by (cases "randomIndex r (Suc i + 1)")
  then have jl: "j < Suc i + 1" by (auto simp: randomIndex_def)
  from 2 have il: "Suc i < length xs" by simp
  let ?xs = "xs[Suc i := xs ! j, j := xs ! Suc i]"
  have sub: "set ?xs \<subseteq> set xs"
  proof -
    have "set ?xs \<subseteq> insert (xs ! Suc i) (set (xs[Suc i := xs ! j]))"
      by (rule set_update_subset_insert)
    also have "\<dots> \<subseteq> insert (xs ! Suc i) (insert (xs ! j) (set xs))"
      using set_update_subset_insert[of xs "Suc i" "xs ! j"] by auto
    also have "\<dots> \<subseteq> set xs" using il jl by auto
    finally show ?thesis .
  qed
  have "set (fst (fisherYates i ?xs r')) \<subseteq> set ?xs"
    using "2.IH"[OF j[symmetric]] il by auto
  with sub j show ?case by auto
qed

lemma deckCard_makeCard: "rk \<in> set ranks \<Longrightarrow> deckCard (makeCard s rk)"
  unfolding ranks_def makeCard_def deckCard_def
  by (auto simp: getCardValue_ranks)

lemma deckCard_oneDeck: "c \<in> set oneDeck \<Longrightarrow> deckCard c"
  by (auto simp: oneDeck_def deckCard_makeCard)

lemma deckCard_freshCards: "c \<in> set (freshCards n) \<Longrightarrow> deckCard c"
  by (auto simp: freshCards_def deckCard_oneDeck)

lemma shuffle_deckOK:
  assumes "0 < numDecks d" and "shuffle d c r = (d0, c0, r0)"
  shows "deckOK d0" "cards d0 \<noteq> []"
proof -
  let ?f = "freshCards (numDecks d)"
  have "set (fst (fisherYates (length ?f - 1) ?f r)) \<subseteq> set ?f"
    by (rule set_fisherYates) (cases "length ?f", auto)
  then have "\<forall>c \<in> set (cards d0). deckCard c"
    using assms(2) deckCard_freshCards by (auto simp: shuffle_def Let_def split: prod.splits)
  then show "deckOK d0" using assms shuffle_props(4)[OF assms(2)]
    by (simp add: deckOK_def list_all_iff)
  show "cards d0 \<noteq> []" using shuffle_props(1)[OF assms(2)] assms(1) by auto
qed

lemma dealCard_deckOK:
  assumes "deckOK d"
  shows "\<exists>c d' k' r'. dealCard d k r = Inr (c, d', k', r') \<and> deckCard c \<and> deckOK d'"
proof (cases "cards d = []")
  case True
  obtain d0 c0 r0 where s: "shuffle d k r = (d0, c0, r0)" by (cases "shuffle d k r") auto
  from assms have n: "0 < numDecks d" by (simp add: deckOK_def)
  note ok = shuffle_deckOK[OF n s]
  from ok have "deckCard (last (cards d0))" "list_all deckCard (butlast (cards d0))"
    by (auto simp: deckOK_def list_all_iff dest: in_set_butlastD)
  with ok True s show ?thesis
    by (simp add: dealCard_def Let_def deckOK_def)
next
  case False
  from assms False have "deckCard (last (cards d))" "list_all deckCard (butlast (cards d))"
    by (auto simp: deckOK_def list_all_iff dest: in_set_butlastD)
  with assms False show ?thesis
    by (simp add: dealCard_def Let_def deckOK_def)
qed

lemma deal_deckOK:
  assumes "deckOK (deck g)"
  shows "\<exists>c g' r'. deal g r = Inr (c, g', r') \<and> deckCard c \<and> deckOK (deck g') \<and> rules g' = rules g"
  using dealCard_deckOK[OF assms, of "counter g" r]
  by (auto simp: deal_def)

lemma deal_rules: "deal g r = Inr (c, g', r') \<Longrightarrow> rules g' = rules g"
  by (auto simp: deal_def split: sum.splits)

lemma deal_dealCard:
  "deal g r = Inr (c, g', r') \<Longrightarrow> dealCard (deck g) (counter g) r = Inr (c, deck g', counter g', r')"
  by (auto simp: deal_def split: sum.splits)

lemma playDealer_step:
  "playDealer (Suc n) g r hand =
     (if dealerMustHit (rules g) hand
      then (case deal g r of
              Inl e \<Rightarrow> Some (Inl e)
            | Inr (c, g', r') \<Rightarrow> playDealer n g' r' (hand @ [c]))
      else Some (Inr (hand, g, r)))"
  by (auto simp: dealerMustHit_def standValue_def handValue_def handSoft_def
           split: prod.splits)

lemma playDealer_trace:
  "playDealer fuel g r hand = Some (Inr (hand', g', r')) \<Longrightarrow>
     \<exists>ds. hand' = hand @ ds \<and>
          (\<forall>k < length ds. dealerMustHit (rules g) (hand @ take k ds)) \<and>
          \<not> dealerMustHit (rules g) hand' \<and>
          dealCards (length ds) (deck g) (counter g) r = Inr (ds, deck g', counter g', r')"
proof (induction fuel arbitrary: g r hand)
  case 0
  then show ?case by simp
next
  case (Suc n)
  show ?case
  proof (cases "dealerMustHit (rules g) hand")
    case False
    with Suc.prems have "hand' = hand" "g' = g" "r' = r" by (simp_all add: playDealer_step del: playDealer.simps)
    with False show ?thesis by (intro exI[of _ "[]"]) simp
  next
    case True
    with Suc.prems obtain c g1 r1 where d: "deal g r = Inr (c, g1, r1)"
      and p: "playDealer n g1 r1 (hand @ [c]) = Some (Inr (hand', g', r'))"
      by (auto simp: playDealer_step simp del: playDealer.simps split: sum.splits)
    from Suc.IH[OF p] obtain ds where ds: "hand' = (hand @ [c]) @ ds"
      "\<forall>k < length ds. dealerMustHit (rules g1) ((hand @ [c]) @ take k ds)"
      "\<not> dealerMustHit (rules g1) hand'"
      "dealCards (length ds) (deck g1) (counter g1) r1 = Inr (ds, deck g', counter g', r')"
      by blast
    note rl = deal_rules[OF d] and dc = deal_dealCard[OF d]
    have "\<forall>k < length (c # ds). dealerMustHit (rules g) (hand @ take k (c # ds))"
    proof (intro allI impI)
      fix k assume "k < length (c # ds)"
      then show "dealerMustHit (rules g) (hand @ take k (c # ds))"
        using True ds(2) rl by (cases k) auto
    qed
    moreover have "dealCards (length (c # ds)) (deck g) (counter g) r = Inr (c # ds, deck g', counter g', r')"
      using dc ds(4) by simp
    ultimately show ?thesis using ds(1,3) rl by (intro exI[of _ "c # ds"]) simp
  qed
qed

lemma hardTotal_snoc_deckCard:
  "deckCard c \<Longrightarrow> hardTotal hand < hardTotal (hand @ [c])"
  using deckCard_cases[of c] by (auto simp: hardTotal_append)

lemma playDealer_returns:
  "deckOK (deck g) \<Longrightarrow> nat (18 - hardTotal hand) < fuel \<Longrightarrow>
     \<exists>hand' g' r'. playDealer fuel g r hand = Some (Inr (hand', g', r'))"
proof (induction fuel arbitrary: g r hand)
  case 0
  then show ?case by simp
next
  case (Suc n)
  show ?case
  proof (cases "dealerMustHit (rules g) hand")
    case False
    then show ?thesis by (simp add: playDealer_step del: playDealer.simps)
  next
    case True
    then have "handValue hand \<le> 17" by (auto simp: dealerMustHit_def)
    with handValue_ge_hardTotal[of hand] have h: "hardTotal hand \<le> 17" by simp
    from deal_deckOK[OF Suc.prems(1), of r] obtain c g1 r1 where
      d: "deal g r = Inr (c, g1, r1)" "deckCard c" "deckOK (deck g1)" by blast
    have "nat (18 - hardTotal (hand @ [c])) < n"
      using hardTotal_snoc_deckCard[OF d(2), of hand] h Suc.prems(2) by simp
    from Suc.IH[OF d(3) this, of r1] show ?thesis using True d(1) by (simp add: playDealer_step del: playDealer.simps)
  qed
qed


text \<open>
  Claim C1: \<^verbatim>\<open>playDealer\<close> draws exactly while the dealer must hit, that is, while the
  total is below 17, or is a soft 17 when soft 17 is hit (the value to stand on is then
  18, and 17 in every other case). It returns the hand at once
  when the dealer must not hit (a total above 17, a hard 17, a bust), and otherwise
  goes on with the next card of the shoe; so the hand returned is the given hand
  followed by the cards dealt, the dealer had to hit before each of them and must not
  hit at the end. With a shoe of deck cards 19 passes are enough for it to return.
\<close>

theorem playDealer_draws_exactly_while_must_hit:
  "standValue (rules g) v isSoft =
     (if dealerStandsOn (rules g) \<noteq> ''17s'' \<and> isSoft \<and> v = 17 then 18 else 17) \<and>
   (\<not> dealerMustHit (rules g) hand \<longrightarrow> playDealer (Suc n) g r hand = Some (Inr (hand, g, r))) \<and>
   (dealerMustHit (rules g) hand \<longrightarrow>
      playDealer (Suc n) g r hand =
        (case deal g r of
           Inl e \<Rightarrow> Some (Inl e)
         | Inr (c, g1, r1) \<Rightarrow> playDealer n g1 r1 (hand @ [c]))) \<and>
   (playDealer fuel g r hand = Some (Inr (hand', g', r')) \<longrightarrow>
      (\<exists>ds. hand' = hand @ ds \<and>
            (\<forall>k < length ds. dealerMustHit (rules g) (hand @ take k ds)) \<and>
            \<not> dealerMustHit (rules g) hand' \<and>
            dealCards (length ds) (deck g) (counter g) r = Inr (ds, deck g', counter g', r'))) \<and>
   (deckOK (deck g) \<and> 0 \<le> hardTotal hand \<and> 19 \<le> fuel \<longrightarrow>
      (\<exists>final g2 r2. playDealer fuel g r hand = Some (Inr (final, g2, r2))))"
proof (intro conjI impI)
  show "standValue (rules g) v isSoft =
     (if dealerStandsOn (rules g) \<noteq> ''17s'' \<and> isSoft \<and> v = 17 then 18 else 17)"
    by (simp add: standValue_def)
next
  assume "\<not> dealerMustHit (rules g) hand"
  then show "playDealer (Suc n) g r hand = Some (Inr (hand, g, r))"
    by (simp add: playDealer_step del: playDealer.simps)
next
  assume "dealerMustHit (rules g) hand"
  then show "playDealer (Suc n) g r hand =
        (case deal g r of Inl e \<Rightarrow> Some (Inl e)
         | Inr (c, g1, r1) \<Rightarrow> playDealer n g1 r1 (hand @ [c]))"
    by (simp add: playDealer_step del: playDealer.simps)
next
  assume "playDealer fuel g r hand = Some (Inr (hand', g', r'))"
  then show "\<exists>ds. hand' = hand @ ds \<and>
            (\<forall>k < length ds. dealerMustHit (rules g) (hand @ take k ds)) \<and>
            \<not> dealerMustHit (rules g) hand' \<and>
            dealCards (length ds) (deck g) (counter g) r = Inr (ds, deck g', counter g', r')"
    by (rule playDealer_trace)
next
  assume a: "deckOK (deck g) \<and> 0 \<le> hardTotal hand \<and> 19 \<le> fuel"
  then have "nat (18 - hardTotal hand) < fuel" by auto
  with a show "\<exists>final g2 r2. playDealer fuel g r hand = Some (Inr (final, g2, r2))"
    using playDealer_returns by blast
qed

theorem playDealer_draws_exactly_while_must_hit_witness:
  "deckOK \<lparr>numDecks = 1,
           cards = [\<lparr>rank = ''9'', suit = Clubs, card_value = 9\<rparr>,
                    \<lparr>rank = ''5'', suit = Diamonds, card_value = 5\<rparr>],
           usedCards = [], penetration = 0, penetrationThreshold = 75\<rparr> \<and>
   dealerMustHit \<lparr>dealerStandsOn = ''17'', doubleAfterSplit = True, allowResplit = True,
                   resplitAces = False, blackjackPays = ''3:2''\<rparr>
     [\<lparr>rank = ''10'', suit = Spades, card_value = 10\<rparr>,
      \<lparr>rank = ''6'', suit = Hearts, card_value = 6\<rparr>] \<and>
   (\<exists>g2 r2.
      playDealer 19
        \<lparr>deck = \<lparr>numDecks = 1,
                  cards = [\<lparr>rank = ''9'', suit = Clubs, card_value = 9\<rparr>,
                           \<lparr>rank = ''5'', suit = Diamonds, card_value = 5\<rparr>],
                  usedCards = [], penetration = 0, penetrationThreshold = 75\<rparr>,
         rules = \<lparr>dealerStandsOn = ''17'', doubleAfterSplit = True, allowResplit = True,
                   resplitAces = False, blackjackPays = ''3:2''\<rparr>,
         counter = None\<rparr>
        \<lparr>outcomes = (\<lambda>n. 0), consumed = 0\<rparr>
        [\<lparr>rank = ''10'', suit = Spades, card_value = 10\<rparr>,
         \<lparr>rank = ''6'', suit = Hearts, card_value = 6\<rparr>]
      = Some (Inr ([\<lparr>rank = ''10'', suit = Spades, card_value = 10\<rparr>,
                    \<lparr>rank = ''6'', suit = Hearts, card_value = 6\<rparr>,
                    \<lparr>rank = ''5'', suit = Diamonds, card_value = 5\<rparr>], g2, r2))) \<and>
   \<not> dealerMustHit \<lparr>dealerStandsOn = ''17'', doubleAfterSplit = True, allowResplit = True,
                     resplitAces = False, blackjackPays = ''3:2''\<rparr>
       [\<lparr>rank = ''10'', suit = Spades, card_value = 10\<rparr>,
        \<lparr>rank = ''6'', suit = Hearts, card_value = 6\<rparr>,
        \<lparr>rank = ''5'', suit = Diamonds, card_value = 5\<rparr>]"
proof -
  let ?d = "\<lparr>numDecks = 1,
           cards = [\<lparr>rank = ''9'', suit = Clubs, card_value = 9\<rparr>,
                    \<lparr>rank = ''5'', suit = Diamonds, card_value = 5\<rparr>],
           usedCards = [], penetration = 0, penetrationThreshold = 75\<rparr>"
  let ?rl = "\<lparr>dealerStandsOn = ''17'', doubleAfterSplit = True, allowResplit = True,
                   resplitAces = False, blackjackPays = ''3:2''\<rparr>"
  let ?g = "\<lparr>deck = ?d, rules = ?rl, counter = None\<rparr>"
  let ?r = "\<lparr>outcomes = (\<lambda>n. 0), consumed = 0\<rparr>"
  let ?h = "[\<lparr>rank = ''10'', suit = Spades, card_value = 10\<rparr>,
             \<lparr>rank = ''6'', suit = Hearts, card_value = 6\<rparr>]"
  let ?g2 = "?g\<lparr>deck := ?d\<lparr>cards := [\<lparr>rank = ''9'', suit = Clubs, card_value = 9\<rparr>],
                              usedCards := [\<lparr>rank = ''5'', suit = Diamonds, card_value = 5\<rparr>],
                              penetration := 25 / 13\<rparr>\<rparr>"
  let ?f = "?h @ [\<lparr>rank = ''5'', suit = Diamonds, card_value = 5\<rparr>]"
  have ok: "deckOK ?d"
    by (simp add: deckOK_def deckCard_def ranks_def getCardValue_ranks)
  have hit: "dealerMustHit ?rl ?h"
    by (simp add: dealerMustHit_def handValue_def calculateHandValue_def)
  have run: "playDealer 19 ?g ?r ?h = Some (Inr (?f, ?g2, ?r))"
    by (simp add: eval_nat_numeral calculateHandValue_def standValue_def deal_def dealCard_def
          Let_def)
  from playDealer_draws_exactly_while_must_hit[where g = ?g and hand = ?h and r = ?r
         and fuel = 19 and hand' = ?f and g' = ?g2 and r' = ?r] run
  have "\<not> dealerMustHit (rules ?g) ?f" by blast
  with ok hit run show ?thesis by auto
qed


section \<open>Properties of the strategy tables and of the situation analysis\<close>

lemma importData_exportData: "importData s0 (exportData s) = s"
  by (simp add: importData_def exportData_def initializeEmpty_def enableCountBased_def
        clone_def cloneOr_def)

text \<open>
  Claim C5: a strategy imported from the exported data of a strategy \<open>s\<close> gives the
  action of \<open>s\<close> on every lookup, and has the \<^verbatim>\<open>countBased\<close> flag of \<open>s\<close>, whatever the
  importing strategy held before.
\<close>

theorem export_import_roundtrip:
  "getAction (importData s0 (exportData s)) playerTotal dealerCard canDbl canSpl count =
     getAction s playerTotal dealerCard canDbl canSpl count \<and>
   countBased (importData s0 (exportData s)) = countBased s"
  by (simp add: importData_exportData)

theorem export_import_roundtrip_witness:
  "getAction
     (importData newStrategy
        (exportData (setCountAction (loadBasicStrategy newStrategy) 2 ''16'' ''10'' ''S'')))
     ''16'' ''10'' False False 2 = ''S'' \<and>
   countBased
     (importData newStrategy
        (exportData (setCountAction (loadBasicStrategy newStrategy) 2 ''16'' ''10'' ''S'')))"
proof -
  let ?s = "setCountAction (loadBasicStrategy newStrategy) 2 ''16'' ''10'' ''S''"
  have a: "getAction ?s ''16'' ''10'' False False 2 = ''S''" by code_simp
  have b: "countBased ?s" by code_simp
  from export_import_roundtrip[of newStrategy ?s "''16''" "''10''" False False 2] a b
  show ?thesis by simp
qed

lemma map_filter_empty_iff:
  "List.map_filter f xs = [] \<longleftrightarrow> list_all (\<lambda>x. f x = None) xs"
  by (induction xs) (auto simp: List.map_filter_simps split: option.splits)

text \<open>
  The claim C7 as stated fails: the player input \<^verbatim>\<open>10,X\<close> holds the part \<^verbatim>\<open>X\<close>, which
  does not parse, and is analysed as the single card 10.
\<close>

theorem analyzeSituation_drops_unparseable:
  "''X'' \<in> set (splitComma ''10,X'') \<and> parseCard ''X'' = None \<and>
   analyzeSituation ''10,X'' ''10'' \<noteq> Inl ''Invalid card input''"
  by code_simp

text \<open>
  Claim C7, amended: \<^verbatim>\<open>analyzeSituation\<close> returns the object
  \<^verbatim>\<open>{ error: 'Invalid card input' }\<close> exactly when the dealer card does not parse or no
  part of the player input parses; in every other case it goes on with the player
  cards that do parse, the other parts being dropped.
\<close>

theorem analyzeSituation_error_iff:
  "(if parseCard dealerCard = None \<or> list_all (\<lambda>part. parseCard part = None) (splitComma pCards)
    then analyzeSituation pCards dealerCard = Inl ''Invalid card input''
    else \<exists>sit. analyzeSituation pCards dealerCard = Inr sit \<and>
               situation_playerCards sit = List.map_filter parseCard (splitComma pCards))"
proof (cases "parseCard dealerCard")
  case None
  then show ?thesis by (simp add: analyzeSituation_def)
next
  case (Some dc)
  show ?thesis
  proof (cases "list_all (\<lambda>part. parseCard part = None) (splitComma pCards)")
    case True
    then have "parsePlayerCards pCards = []"
      by (simp add: parsePlayerCards_def map_filter_empty_iff)
    with Some True show ?thesis by (simp add: analyzeSituation_def)
  next
    case False
    then have "parsePlayerCards pCards \<noteq> []"
      by (simp add: parsePlayerCards_def map_filter_empty_iff)
    with Some False show ?thesis
      by (simp add: analyzeSituation_def Let_def parsePlayerCards_def split: prod.splits)
  qed
qed

theorem analyzeSituation_error_iff_witness:
  "analyzeSituation ''X,Y'' ''10'' = Inl ''Invalid card input'' \<and>
   analyzeSituation ''10,6'' ''1'' = Inl ''Invalid card input'' \<and>
   (\<exists>sit. analyzeSituation ''10,X'' ''10'' = Inr sit \<and>
          situation_playerCards sit = [\<lparr>rank = ''10'', suit = Spades, card_value = 10\<rparr>])"
proof -
  have a: "parseCard ''10'' \<noteq> None" "list_all (\<lambda>part. parseCard part = None) (splitComma ''X,Y'')"
    "parseCard ''1'' = None" "\<not> list_all (\<lambda>part. parseCard part = None) (splitComma ''10,X'')"
    "List.map_filter parseCard (splitComma ''10,X'') = [\<lparr>rank = ''10'', suit = Spades, card_value = 10\<rparr>]"
    by code_simp+
  from analyzeSituation_error_iff[of "''10''" "''X,Y''"]
       analyzeSituation_error_iff[of "''1''" "''10,6''"]
       analyzeSituation_error_iff[of "''10''" "''10,X''"] a
  show ?thesis by auto
qed


section \<open>Properties of the row test\<close>

lemma shouldCancel_keeps:
  "shouldCancel env st = (b, st') \<Longrightarrow> row_results st' = row_results st \<and> row_actions st' = row_actions st"
  by (auto simp: shouldCancel_def split: option.splits)

lemma shouldCancel_rowReady:
  "shouldCancel env st = (b, st') \<Longrightarrow> rowReady st \<Longrightarrow> rowReady st'"
  using shouldCancel_keeps[of env st b st'] by (simp add: rowReady_def)

lemma recordTrial_rowReady:
  assumes "rowReady st" and "a = ''H'' \<or> a = ''S''"
  shows "\<exists>st'. recordTrial env i ''10'' a st = Inr st' \<and> rowReady st'"
proof -
  from assms(1) obtain row cH cS where
    r: "row_actions st = [''H'', ''S'']" "row_results st ''10'' = Some row"
       "row ''H'' = Some cH" "row ''S'' = Some cS"
    by (auto simp: rowReady_def split: option.splits)
  from assms(2) r obtain c where c: "row a = Some c" by auto
  obtain res won wager where t: "trial env i ''10'' a = (res, won, wager)"
    by (cases "trial env i ''10'' a")
  from r c t obtain c' where
    rt: "recordTrial env i ''10'' a st = Inr (st\<lparr>row_results := (row_results st)(''10'' \<mapsto> row(a \<mapsto> c'))\<rparr>)"
    by (simp add: recordTrial_def Let_def)
  have "rowReady (st\<lparr>row_results := (row_results st)(''10'' \<mapsto> row(a \<mapsto> c'))\<rparr>)"
    using r by (simp add: rowReady_def)
  with rt show ?thesis by blast
qed

lemma testActions_rowReady:
  "rowReady st \<Longrightarrow> set as \<subseteq> {''H'', ''S''} \<Longrightarrow>
     \<exists>b st'. testActions env i ''10'' as st = Inr (b, st') \<and> rowReady st'"
proof (induction as arbitrary: st)
  case Nil
  then show ?case by auto
next
  case (Cons a as)
  obtain stop st1 where sc: "shouldCancel env st = (stop, st1)" by (cases "shouldCancel env st")
  note r1 = shouldCancel_rowReady[OF sc Cons.prems(1)]
  show ?case
  proof (cases stop)
    case True
    with sc have "testActions env i ''10'' (a # as) st = Inr (True, st1)" by simp
    with r1 show ?thesis by blast
  next
    case False
    from Cons.prems(2) have a: "a = ''H'' \<or> a = ''S''" by auto
    from recordTrial_rowReady[OF r1 a, of env i] obtain st2 where
      rt: "recordTrial env i ''10'' a st1 = Inr st2" "rowReady st2" by blast
    from Cons.IH[OF rt(2)] Cons.prems(2) obtain b st' where
      ih: "testActions env i ''10'' as st2 = Inr (b, st')" "rowReady st'" by auto
    from sc False rt(1) have "testActions env i ''10'' (a # as) st = testActions env i ''10'' as st2"
      by simp
    with ih show ?thesis by auto
  qed
qed

lemma testDealers_rowReady:
  "rowReady st \<Longrightarrow> set ds \<subseteq> {''10''} \<Longrightarrow>
     \<exists>b st'. testDealers env filtered i ds st = Inr (b, st') \<and> rowReady st'"
proof (induction ds arbitrary: st)
  case Nil
  then show ?case by auto
next
  case (Cons d ds)
  obtain stop st1 where sc: "shouldCancel env st = (stop, st1)" by (cases "shouldCancel env st")
  note r1 = shouldCancel_rowReady[OF sc Cons.prems(1)]
  from Cons.prems(2) have d: "d = ''10''" and ds: "set ds \<subseteq> {''10''}" by auto
  show ?case
  proof (cases stop)
    case True
    with sc have "testDealers env filtered i (d # ds) st = Inr (True, st1)" by simp
    with r1 show ?thesis by blast
  next
    case ns: False
    show ?thesis
    proof (cases "filtered \<and> \<not> countMatches env i d")
      case True
      with sc ns have "testDealers env filtered i (d # ds) st = testDealers env filtered i ds st1"
        by simp
      with Cons.IH[OF r1 ds] show ?thesis by simp
    next
      case False
      from r1 have acts: "set (row_actions st1) \<subseteq> {''H'', ''S''}" by (simp add: rowReady_def)
      from testActions_rowReady[OF r1 acts, of env i] obtain b2 st2 where
        ta: "testActions env i ''10'' (row_actions st1) st1 = Inr (b2, st2)" "rowReady st2" by blast
      show ?thesis
      proof (cases b2)
        case True
        with sc ns False ta(1) d have "testDealers env filtered i (d # ds) st = Inr (True, st2)"
          by auto
        with ta(2) show ?thesis by blast
      next
        case nb: False
        with sc ns False ta(1) d
        have "testDealers env filtered i (d # ds) st = testDealers env filtered i ds st2"
          by auto
        with Cons.IH[OF ta(2) ds] show ?thesis by simp
      qed
    qed
  qed
qed

lemma not_blackjack_10_6: "\<not> isInitialBlackjack ''10,6''"
  by code_simp

lemma testTrials_rowReady:
  "rowReady st \<Longrightarrow>
     \<exists>b st'. testTrials env filtered ''10,6'' [''10''] todo i st = Inr (b, st') \<and> rowReady st'"
proof (induction todo arbitrary: st i)
  case 0
  then show ?case by auto
next
  case (Suc todo)
  obtain stop st1 where sc: "shouldCancel env st = (stop, st1)" by (cases "shouldCancel env st")
  note r1 = shouldCancel_rowReady[OF sc Suc.prems(1)]
  show ?case
  proof (cases stop)
    case True
    with sc have "testTrials env filtered ''10,6'' [''10''] (Suc todo) i st = Inr (True, st1)"
      by simp
    with r1 show ?thesis by blast
  next
    case ns: False
    from testDealers_rowReady[OF r1, of "[''10'']" env filtered i] obtain b2 st2 where
      td: "testDealers env filtered i [''10''] st1 = Inr (b2, st2)" "rowReady st2" by auto
    show ?thesis
    proof (cases b2)
      case True
      with sc ns td(1)
      have "testTrials env filtered ''10,6'' [''10''] (Suc todo) i st = Inr (True, st2)"
        by (simp add: not_blackjack_10_6 del: testDealers.simps)
      with td(2) show ?thesis by blast
    next
      case False
      with sc ns td(1)
      have "testTrials env filtered ''10,6'' [''10''] (Suc todo) i st =
              testTrials env filtered ''10,6'' [''10''] todo (i + 1) st2"
        by (simp add: not_blackjack_10_6 del: testDealers.simps)
      with Suc.IH[OF td(2), of "i + 1"] show ?thesis by simp
    qed
  qed
qed

lemma finalizeRow_rowReady:
  assumes "rowReady st"
  shows "\<exists>out row cells cH cS.
           finalizeRow [''10''] st stop = Inr out \<and> cancelled out = stop \<and>
           summary out ''10'' = Some row \<and> dom row = {''H'', ''S''} \<and>
           outcome_results out ''10'' = Some cells \<and>
           cells ''H'' = Some cH \<and> row ''H'' = Some (cellEV cH) \<and>
           row_expectedValue cH = Some (cellEV cH) \<and>
           cells ''S'' = Some cS \<and> row ''S'' = Some (cellEV cS) \<and>
           row_expectedValue cS = Some (cellEV cS)"
proof -
  from assms obtain row0 c1 c2 where
    r: "row_actions st = [''H'', ''S'']" "row_results st ''10'' = Some row0"
       "row0 ''H'' = Some c1" "row0 ''S'' = Some c2"
    by (auto simp: rowReady_def split: option.splits)
  let ?c1 = "c1\<lparr>row_expectedValue := Some (cellEV c1)\<rparr>"
  let ?c2 = "c2\<lparr>row_expectedValue := Some (cellEV c2)\<rparr>"
  let ?rs = "(row_results st)(''10'' \<mapsto> row0(''H'' \<mapsto> ?c1, ''S'' \<mapsto> ?c2))"
  let ?m = "[''H'' \<mapsto> cellEV c1, ''S'' \<mapsto> cellEV c2]"
  have fa: "finalizeActions ''10'' [''H'', ''S''] (row_results st, Map.empty) = Inr (?rs, ?m)"
    using r by simp
  have "finalizeRow [''10''] st stop =
          Inr \<lparr>outcome_results = ?rs, summary = [''10'' \<mapsto> ?m], cancelled = stop\<rparr>"
    using fa r(1) by (simp add: finalizeRow_def del: finalizeActions.simps)
  moreover have "dom ?m = {''H'', ''S''}" by auto
  moreover have "cellEV ?c1 = cellEV c1" "cellEV ?c2 = cellEV c2" by (simp_all add: cellEV_def)
  ultimately show ?thesis by (intro exI[of _ "\<lparr>outcome_results = ?rs, summary = [''10'' \<mapsto> ?m], cancelled = stop\<rparr>"] exI[of _ ?m]
      exI[of _ "row0(''H'' \<mapsto> ?c1, ''S'' \<mapsto> ?c2)"] exI[of _ ?c1] exI[of _ ?c2]) simp
qed

lemma processRowChunk_rowReady:
  "rowReady st \<Longrightarrow>
     \<exists>st' stop. rowReady st' \<and>
        processRowChunk env filtered ''10,6'' [''10''] numSimulations currentIndex st =
          finalizeRow [''10''] st' stop"
proof (induction env filtered "''10,6''" "[''10'']" numSimulations currentIndex st
        rule: processRowChunk.induct)
  case (1 env filtered numSimulations currentIndex st)
  let ?endIndex = "min (currentIndex + CHUNK_SIZE) numSimulations"
  from testTrials_rowReady[OF "1.prems", of env filtered "?endIndex - currentIndex" currentIndex]
  obtain b st1 where tt:
    "testTrials env filtered ''10,6'' [''10''] (?endIndex - currentIndex) currentIndex st = Inr (b, st1)"
    "rowReady st1" by blast
  obtain stop' st2 where sc: "shouldCancel env st1 = (stop', st2)" by (cases "shouldCancel env st1")
  note r2 = shouldCancel_rowReady[OF sc tt(2)]
  show ?case
  proof (cases "b \<or> stop' \<or> ?endIndex \<ge> numSimulations")
    case True
    then show ?thesis
      using tt sc r2 by (subst processRowChunk.simps) (auto simp: Let_def)
  next
    case False
    then have nb: "\<not> b" and ns: "\<not> stop'" and nle: "\<not> numSimulations \<le> ?endIndex" by auto
    from "1.hyps"[OF refl tt(1) refl nb sc[symmetric] ns nle r2]
    obtain st' stop where "rowReady st'"
      "processRowChunk env filtered ''10,6'' [''10''] numSimulations ?endIndex st2 =
         finalizeRow [''10''] st' stop" by auto
    with nb ns nle tt sc show ?thesis
      by (subst processRowChunk.simps) (auto simp: Let_def)
  qed
qed


lemma rowReady_initial:
  "rowReady \<lparr>row_results = initialRowResults [''10''] [''H'', ''S''],
             row_actions = [''H'', ''S''], polls = 0\<rparr>"
  by (simp add: rowReady_def initialRowResults_def)

lemma row_16_setup:
  "representativeHand ''16'' = (''10,6'', False)" "validActions ''16'' True False = [''H'', ''S'']"
  by code_simp+

text \<open>
  The claim C6 as stated fails: the summary of the row \<^verbatim>\<open>'16'\<close> has no entry for
  Double. Here every trial loses the bet of 100.
\<close>

theorem testRowActions_16_has_no_double:
  "(case testRowActions
           \<lparr>counting = False, countMatches = (\<lambda>i dealer. True),
            trial = (\<lambda>i dealer action. (''lose'', - 100, 100)), cancelCheck = None\<rparr>
           ''16'' [''10''] None 3 100 of
      Inl e \<Rightarrow> False
    | Inr out \<Rightarrow>
       (case summary out ''10'' of
          None \<Rightarrow> False
        | Some row \<Rightarrow> row ''D'' = None \<and> row ''H'' = Some (- 100) \<and> row ''S'' = Some (- 100)))"
  by code_simp

text \<open>
  Claim C6, amended: \<^verbatim>\<open>testRowActions('16', ['10'], countLevel, n, betSize)\<close> resolves
  with a \<^verbatim>\<open>summary['10']\<close> whose keys are exactly H and S (Double is offered for the
  hard totals 9 to 11 only, Split for pairs only), each holding the expected value of
  its cell of \<^verbatim>\<open>results\<close>: total winnings by games played, or 0 when no game was
  played.
\<close>

theorem testRowActions_16_keys:
  "\<exists>out row cells cH cS.
     testRowActions env ''16'' [''10''] countLevel n betSize = Inr out \<and>
     summary out ''10'' = Some row \<and> dom row = {''H'', ''S''} \<and>
     outcome_results out ''10'' = Some cells \<and>
     cells ''H'' = Some cH \<and> row ''H'' = Some (cellEV cH) \<and>
     cells ''S'' = Some cS \<and> row ''S'' = Some (cellEV cS)"
proof -
  let ?st = "\<lparr>row_results = initialRowResults [''10''] [''H'', ''S''],
              row_actions = [''H'', ''S''], polls = 0\<rparr>"
  from processRowChunk_rowReady[OF rowReady_initial, of env "counting env \<and> countLevel \<noteq> None" n 0]
  obtain st' stop where
    r: "rowReady st'"
       "processRowChunk env (counting env \<and> countLevel \<noteq> None) ''10,6'' [''10''] n 0 ?st =
          finalizeRow [''10''] st' stop" by blast
  have eq: "testRowActions env ''16'' [''10''] countLevel n betSize = finalizeRow [''10''] st' stop"
    using r(2) by (simp add: testRowActions_def row_16_setup)
  from finalizeRow_rowReady[OF r(1), of stop] show ?thesis
    unfolding eq by (elim exE conjE, intro exI conjI) assumption+
qed

theorem testRowActions_16_keys_witness:
  "\<exists>out row.
     testRowActions
       \<lparr>counting = False, countMatches = (\<lambda>i dealer. True),
        trial = (\<lambda>i dealer action. (''lose'', - 100, 100)), cancelCheck = None\<rparr>
       ''16'' [''10''] None 3 100 = Inr out \<and>
     summary out ''10'' = Some row \<and> dom row = {''H'', ''S''}"
proof -
  from testRowActions_16_keys[of
       "\<lparr>counting = False, countMatches = (\<lambda>i dealer. True),
        trial = (\<lambda>i dealer action. (''lose'', - 100, 100)), cancelCheck = None\<rparr>" None 3 100]
  show ?thesis
    by (elim exE conjE, intro exI conjI) assumption+
qed


section \<open>Properties of the player loop\<close>

lemma hitHand_length:
  "hitHand g r hs tb i = Inr (again, hs', tb', g', r') \<Longrightarrow>
     length hs' = length hs"
  by (auto simp: hitHand_def Let_def split: sum.splits if_splits)

lemma playHandPass_splits_iff:
  assumes "playHandPass g r st up cd hs tb i = Inr (again, hs', tb', g', r')"
  shows "length hs' = Suc (length hs) \<longleftrightarrow>
           chosenAction g st up cd hs i = ''P'' \<and> canSplitThisHand (rules g) hs (hs ! i)"
proof (cases "chosenAction g st up cd hs i = ''P'' \<and> canSplitThisHand (rules g) hs (hs ! i)")
  case True
  with assms show ?thesis
    by (auto simp: playHandPass_def Let_def split: sum.splits)
next
  case False
  have "length hs' = length hs"
  proof (cases "chosenAction g st up cd hs i = ''H''")
    case True
    with assms show ?thesis by (auto simp: playHandPass_def Let_def dest: hitHand_length)
  next
    case nh: False
    show ?thesis
    proof (cases "chosenAction g st up cd hs i = ''S''")
      case True
      with nh assms show ?thesis by (auto simp: playHandPass_def Let_def)
    next
      case ns: False
      show ?thesis
      proof (cases "chosenAction g st up cd hs i = ''D''")
        case True
        with nh ns assms show ?thesis
          by (auto simp: playHandPass_def Let_def dest: hitHand_length split: sum.splits if_splits)
      next
        case nd: False
        show ?thesis
        proof (cases "chosenAction g st up cd hs i = ''P''")
          case True
          with False have "\<not> canSplitThisHand (rules g) hs (hs ! i)" by simp
          with True nh ns nd assms show ?thesis
            by (auto simp: playHandPass_def Let_def dest: hitHand_length)
        next
          case False
          with nh ns nd assms show ?thesis by (auto simp: playHandPass_def Let_def)
        qed
      qed
    qed
  qed
  with False show ?thesis by simp
qed

text \<open>
  Claim C4, amended: a hand that holds a pair may split when no split has occurred yet,
  that is, while the worklist holds one hand. Once it holds more, every hand of it,
  the one at index 0 too, may split only under the resplit rules: \<^verbatim>\<open>resplitAces\<close> for
  a pair of Aces, \<^verbatim>\<open>allowResplit\<close> for another pair. A pass of the loop adds a hand to the
  worklist exactly when the strategy answers Split and the hand may split.
\<close>

theorem split_permission:
  "(length hs \<le> 1 \<longrightarrow>
      canSplitThisHand (rules g) hs (hs ! i) = isPair (hs ! i)) \<and>
   (1 < length hs \<longrightarrow>
      canSplitThisHand (rules g) hs (hs ! i) =
        (isPair (hs ! i) \<and>
         (if isAcePair (hs ! i) then resplitAces (rules g) else allowResplit (rules g)))) \<and>
   (playHandPass g r st up cd hs tb i = Inr (again, hs', tb', g', r') \<longrightarrow>
      (length hs' = Suc (length hs) \<longleftrightarrow>
         chosenAction g st up cd hs i = ''P'' \<and> canSplitThisHand (rules g) hs (hs ! i)))"
  using playHandPass_splits_iff[of g r st up cd hs tb i again hs' tb' g' r']
  by (auto simp: canSplitThisHand_def canResplit_def hasSplit_def)


text \<open>
  The claim C4 as stated fails. With resplitting not allowed, a pair of eights is
  split, and the hand at index 0 draws a third eight. It holds a pair again, which the
  specification says may always split at index 0, but the loop does not permit it: the
  hand is played as a hard 16 and the round ends with two hands.
\<close>

theorem first_hand_not_resplit:
  "map_sum id (\<lambda>(again, hs, tb, g, r). (again, hs, tb))
     (playHandPass
        \<lparr>deck = \<lparr>numDecks = 1,
                 cards = [\<lparr>rank = ''5'', suit = Clubs, card_value = 5\<rparr>,
                          \<lparr>rank = ''8'', suit = Diamonds, card_value = 8\<rparr>,
                          \<lparr>rank = ''10'', suit = Diamonds, card_value = 10\<rparr>],
                 usedCards = [], penetration = 0, penetrationThreshold = 75\<rparr>,
        rules = \<lparr>dealerStandsOn = ''17'', doubleAfterSplit = True, allowResplit = False,
        resplitAces = False, blackjackPays = ''3:2''\<rparr>,
        counter = None\<rparr>
        \<lparr>outcomes = (\<lambda>n. 0), consumed = 0\<rparr>
        (loadBasicStrategy newStrategy) \<lparr>rank = ''10'', suit = Clubs, card_value = 10\<rparr> True
        [\<lparr>hand_cards = [\<lparr>rank = ''8'', suit = Spades, card_value = 8\<rparr>, \<lparr>rank = ''8'', suit = Hearts, card_value = 8\<rparr>], bet = 1, result = None\<rparr>] 1 0)
   = Inr (True, [\<lparr>hand_cards = [\<lparr>rank = ''8'', suit = Spades, card_value = 8\<rparr>, \<lparr>rank = ''8'', suit = Diamonds, card_value = 8\<rparr>], bet = 1, result = None\<rparr>,
                 \<lparr>hand_cards = [\<lparr>rank = ''8'', suit = Hearts, card_value = 8\<rparr>, \<lparr>rank = ''10'', suit = Diamonds, card_value = 10\<rparr>], bet = 1, result = None\<rparr>], 2) \<and>
   specSplitPermitted \<lparr>dealerStandsOn = ''17'', doubleAfterSplit = True, allowResplit = False,
        resplitAces = False, blackjackPays = ''3:2''\<rparr>
     [\<lparr>hand_cards = [\<lparr>rank = ''8'', suit = Spades, card_value = 8\<rparr>, \<lparr>rank = ''8'', suit = Diamonds, card_value = 8\<rparr>], bet = 1, result = None\<rparr>,
      \<lparr>hand_cards = [\<lparr>rank = ''8'', suit = Hearts, card_value = 8\<rparr>, \<lparr>rank = ''10'', suit = Diamonds, card_value = 10\<rparr>], bet = 1, result = None\<rparr>] 0 \<and>
   \<not> canSplitThisHand \<lparr>dealerStandsOn = ''17'', doubleAfterSplit = True, allowResplit = False,
        resplitAces = False, blackjackPays = ''3:2''\<rparr>
       [\<lparr>hand_cards = [\<lparr>rank = ''8'', suit = Spades, card_value = 8\<rparr>, \<lparr>rank = ''8'', suit = Diamonds, card_value = 8\<rparr>], bet = 1, result = None\<rparr>,
        \<lparr>hand_cards = [\<lparr>rank = ''8'', suit = Hearts, card_value = 8\<rparr>, \<lparr>rank = ''10'', suit = Diamonds, card_value = 10\<rparr>], bet = 1, result = None\<rparr>]
       ([\<lparr>hand_cards = [\<lparr>rank = ''8'', suit = Spades, card_value = 8\<rparr>, \<lparr>rank = ''8'', suit = Diamonds, card_value = 8\<rparr>], bet = 1, result = None\<rparr>,
         \<lparr>hand_cards = [\<lparr>rank = ''8'', suit = Hearts, card_value = 8\<rparr>, \<lparr>rank = ''10'', suit = Diamonds, card_value = 10\<rparr>], bet = 1, result = None\<rparr>] ! 0) \<and>
   map_option (map_sum id (\<lambda>(hs, tb, g, r). map hand_cards hs))
     (playHand 10
        \<lparr>deck = \<lparr>numDecks = 1,
                 cards = [\<lparr>rank = ''5'', suit = Clubs, card_value = 5\<rparr>,
                          \<lparr>rank = ''8'', suit = Diamonds, card_value = 8\<rparr>,
                          \<lparr>rank = ''10'', suit = Diamonds, card_value = 10\<rparr>],
                 usedCards = [], penetration = 0, penetrationThreshold = 75\<rparr>,
        rules = \<lparr>dealerStandsOn = ''17'', doubleAfterSplit = True, allowResplit = False,
        resplitAces = False, blackjackPays = ''3:2''\<rparr>,
        counter = None\<rparr>
        \<lparr>outcomes = (\<lambda>n. 0), consumed = 0\<rparr>
        [\<lparr>rank = ''8'', suit = Spades, card_value = 8\<rparr>, \<lparr>rank = ''8'', suit = Hearts, card_value = 8\<rparr>] \<lparr>rank = ''10'', suit = Clubs, card_value = 10\<rparr> (loadBasicStrategy newStrategy) True True)
   = Some (Inr [[\<lparr>rank = ''8'', suit = Spades, card_value = 8\<rparr>, \<lparr>rank = ''8'', suit = Diamonds, card_value = 8\<rparr>, \<lparr>rank = ''5'', suit = Clubs, card_value = 5\<rparr>], [\<lparr>rank = ''8'', suit = Hearts, card_value = 8\<rparr>, \<lparr>rank = ''10'', suit = Diamonds, card_value = 10\<rparr>]])"
  by code_simp

theorem split_permission_witness:
  "canSplitThisHand \<lparr>dealerStandsOn = ''17'', doubleAfterSplit = True, allowResplit = False,
        resplitAces = False, blackjackPays = ''3:2''\<rparr> [\<lparr>hand_cards = [\<lparr>rank = ''8'', suit = Spades, card_value = 8\<rparr>, \<lparr>rank = ''8'', suit = Hearts, card_value = 8\<rparr>], bet = 1, result = None\<rparr>] ([\<lparr>hand_cards = [\<lparr>rank = ''8'', suit = Spades, card_value = 8\<rparr>, \<lparr>rank = ''8'', suit = Hearts, card_value = 8\<rparr>], bet = 1, result = None\<rparr>] ! 0) \<and>
   chosenAction
     \<lparr>deck = \<lparr>numDecks = 1,
                 cards = [\<lparr>rank = ''5'', suit = Clubs, card_value = 5\<rparr>,
                          \<lparr>rank = ''8'', suit = Diamonds, card_value = 8\<rparr>,
                          \<lparr>rank = ''10'', suit = Diamonds, card_value = 10\<rparr>],
                 usedCards = [], penetration = 0, penetrationThreshold = 75\<rparr>,
        rules = \<lparr>dealerStandsOn = ''17'', doubleAfterSplit = True, allowResplit = False,
        resplitAces = False, blackjackPays = ''3:2''\<rparr>,
        counter = None\<rparr>
     (loadBasicStrategy newStrategy) \<lparr>rank = ''10'', suit = Clubs, card_value = 10\<rparr> True [\<lparr>hand_cards = [\<lparr>rank = ''8'', suit = Spades, card_value = 8\<rparr>, \<lparr>rank = ''8'', suit = Hearts, card_value = 8\<rparr>], bet = 1, result = None\<rparr>] 0 = ''P'' \<and>
   map_sum id (\<lambda>(again, hs, tb, g, r). length hs)
     (playHandPass
        \<lparr>deck = \<lparr>numDecks = 1,
                 cards = [\<lparr>rank = ''5'', suit = Clubs, card_value = 5\<rparr>,
                          \<lparr>rank = ''8'', suit = Diamonds, card_value = 8\<rparr>,
                          \<lparr>rank = ''10'', suit = Diamonds, card_value = 10\<rparr>],
                 usedCards = [], penetration = 0, penetrationThreshold = 75\<rparr>,
        rules = \<lparr>dealerStandsOn = ''17'', doubleAfterSplit = True, allowResplit = False,
        resplitAces = False, blackjackPays = ''3:2''\<rparr>,
        counter = None\<rparr>
        \<lparr>outcomes = (\<lambda>n. 0), consumed = 0\<rparr>
        (loadBasicStrategy newStrategy) \<lparr>rank = ''10'', suit = Clubs, card_value = 10\<rparr> True
        [\<lparr>hand_cards = [\<lparr>rank = ''8'', suit = Spades, card_value = 8\<rparr>, \<lparr>rank = ''8'', suit = Hearts, card_value = 8\<rparr>], bet = 1, result = None\<rparr>] 1 0)
   = Inr 2"
proof -
  let ?g = "\<lparr>deck = \<lparr>numDecks = 1,
                 cards = [\<lparr>rank = ''5'', suit = Clubs, card_value = 5\<rparr>,
                          \<lparr>rank = ''8'', suit = Diamonds, card_value = 8\<rparr>,
                          \<lparr>rank = ''10'', suit = Diamonds, card_value = 10\<rparr>],
                 usedCards = [], penetration = 0, penetrationThreshold = 75\<rparr>,
        rules = \<lparr>dealerStandsOn = ''17'', doubleAfterSplit = True, allowResplit = False,
        resplitAces = False, blackjackPays = ''3:2''\<rparr>,
        counter = None\<rparr>"
  let ?r = "\<lparr>outcomes = (\<lambda>n. 0), consumed = 0\<rparr>"
  let ?h = "\<lparr>hand_cards = [\<lparr>rank = ''8'', suit = Spades, card_value = 8\<rparr>, \<lparr>rank = ''8'', suit = Hearts, card_value = 8\<rparr>], bet = 1, result = None\<rparr>"
  let ?up = "\<lparr>rank = ''10'', suit = Clubs, card_value = 10\<rparr>"
  let ?st = "loadBasicStrategy newStrategy"
  have len: "map_sum id (\<lambda>(again, hs, tb, g, r). length hs) (playHandPass ?g ?r ?st ?up True [?h] 1 0) = Inr 2"
    by code_simp
  then obtain again hs' tb' g' r' where
    p: "playHandPass ?g ?r ?st ?up True [?h] 1 0 = Inr (again, hs', tb', g', r')" "length hs' = 2"
    by (cases "playHandPass ?g ?r ?st ?up True [?h] 1 0") auto
  have pr: "isPair ?h" by code_simp
  from split_permission[of "[?h]" ?g 0 ?r ?st ?up True 1 again hs' tb' g' r'] p pr
  have "canSplitThisHand (rules ?g) [?h] ([?h] ! 0)" "chosenAction ?g ?st ?up True [?h] 0 = ''P''"
    by simp_all
  with len show ?thesis by simp
qed


section \<open>Properties of the simulation\<close>










text \<open>
  Claim C9 holds of the design and fails in the code. The player is dealt 5 and 3
  against a dealer 10; the strategy answers Hit, the player draws a 10 and stands on
  18 with the bet unchanged. \<^verbatim>\<open>getInitialAction\<close> sees a first hand of three cards and
  reports Double, and the game is filed under the cell of Double.
\<close>

theorem initial_hit_filed_as_double:
  "(case dealFour
           \<lparr>deck = \<lparr>numDecks = 1,
                  cards = [\<lparr>rank = ''10'', suit = Hearts, card_value = 10\<rparr>,
                           \<lparr>rank = ''7'', suit = Clubs, card_value = 7\<rparr>,
                           \<lparr>rank = ''10'', suit = Diamonds, card_value = 10\<rparr>,
                           \<lparr>rank = ''3'', suit = Spades, card_value = 3\<rparr>,
                           \<lparr>rank = ''5'', suit = Spades, card_value = 5\<rparr>],
                  usedCards = [], penetration = 0, penetrationThreshold = 75\<rparr>,
          rules = \<lparr>dealerStandsOn = ''17'', doubleAfterSplit = True, allowResplit = False,
                    resplitAces = False, blackjackPays = ''3:2''\<rparr>,
          counter = None\<rparr>
           \<lparr>outcomes = (\<lambda>n. 0), consumed = 0\<rparr> of
      Inl e \<Rightarrow> ''error''
    | Inr (pCards, dCards, g, r) \<Rightarrow>
        chosenAction g (loadBasicStrategy newStrategy) (dCards ! 0) (doubleAfterSplit (rules g))
          [\<lparr>hand_cards = pCards, bet = 1, result = None\<rparr>] 0) = ''H'' \<and>
   map_option
     (map_sum id
        (\<lambda>(gr, g, r). (outcome gr, map_option (map hand_cards) (hands gr),
                       map_option (map bet) (hands gr), wagered gr,
                       map_option decision_action (initialDecision gr), cellKeyOf gr 0)))
     (playGame 10
        \<lparr>deck = \<lparr>numDecks = 1,
                  cards = [\<lparr>rank = ''10'', suit = Hearts, card_value = 10\<rparr>,
                           \<lparr>rank = ''7'', suit = Clubs, card_value = 7\<rparr>,
                           \<lparr>rank = ''10'', suit = Diamonds, card_value = 10\<rparr>,
                           \<lparr>rank = ''3'', suit = Spades, card_value = 3\<rparr>,
                           \<lparr>rank = ''5'', suit = Spades, card_value = 5\<rparr>],
                  usedCards = [], penetration = 0, penetrationThreshold = 75\<rparr>,
          rules = \<lparr>dealerStandsOn = ''17'', doubleAfterSplit = True, allowResplit = False,
                    resplitAces = False, blackjackPays = ''3:2''\<rparr>,
          counter = None\<rparr>
        \<lparr>outcomes = (\<lambda>n. 0), consumed = 0\<rparr> (loadBasicStrategy newStrategy) 100)
   = Some (Inr (''win'',
                Some [[\<lparr>rank = ''5'', suit = Spades, card_value = 5\<rparr>,
                       \<lparr>rank = ''3'', suit = Spades, card_value = 3\<rparr>,
                       \<lparr>rank = ''10'', suit = Hearts, card_value = 10\<rparr>]],
                Some [1], 100, Some ''D'', ''8_10_D_0''))"
  by code_simp


end
